theory Spec2Isabelle
  imports Complex_Main
begin

section \<open>Text values\<close>

text \<open>
  The programs are TypeScript. A text value is modelled as a \<^typ>\<open>string\<close>; the message
  literals of the source that are not ASCII are kept as the bytes of their UTF-8 encoding.
  \<open>toLowerCase\<close> is modelled on the ASCII range. For the comparisons of the source
  (\<open>quit\<close>, \<open>debug\<close>, \<open>info\<close>) that is all that matters: a text with a character
  outside ASCII does not lower to one of these words, in the source as in the model.
\<close>

definition nl :: string where
  "nl = [CHR 0x0A]"

definition lower_char :: "char \<Rightarrow> char" where
  "lower_char c =
     (case map_of (zip ''ABCDEFGHIJKLMNOPQRSTUVWXYZ'' ''abcdefghijklmnopqrstuvwxyz'') c of
        Some d \<Rightarrow> d
      | None \<Rightarrow> c)"

definition toLowerCase :: "string \<Rightarrow> string" where
  "toLowerCase s = map lower_char s"

definition startsWith :: "string \<Rightarrow> string \<Rightarrow> bool" where
  "startsWith s p = (take (length p) s = p)"

definition substring :: "string \<Rightarrow> nat \<Rightarrow> string" where
  "substring s n = drop n s"

text \<open>
  The white space of the language, which \<open>trim\<close> and \<open>parseInt\<close> remove: the
  characters TAB, LF, VT, FF, CR and space, U+00A0, U+1680, U+2000 to U+200A, U+2028,
  U+2029, U+202F, U+205F, U+3000 and U+FEFF, each as the bytes of its UTF-8 encoding.
  Every one of them starts with a byte that starts a character, so removing these byte
  sequences at the ends of a well-formed text removes exactly these characters.
\<close>

definition white_space :: "string list" where
  "white_space =
     [[CHR 0x09], [CHR 0x0A], [CHR 0x0B], [CHR 0x0C], [CHR 0x0D], [CHR 0x20],
      [CHR 0xC2, CHR 0xA0], [CHR 0xE1, CHR 0x9A, CHR 0x80],
      [CHR 0xE2, CHR 0x80, CHR 0x80], [CHR 0xE2, CHR 0x80, CHR 0x81],
      [CHR 0xE2, CHR 0x80, CHR 0x82], [CHR 0xE2, CHR 0x80, CHR 0x83],
      [CHR 0xE2, CHR 0x80, CHR 0x84], [CHR 0xE2, CHR 0x80, CHR 0x85],
      [CHR 0xE2, CHR 0x80, CHR 0x86], [CHR 0xE2, CHR 0x80, CHR 0x87],
      [CHR 0xE2, CHR 0x80, CHR 0x88], [CHR 0xE2, CHR 0x80, CHR 0x89],
      [CHR 0xE2, CHR 0x80, CHR 0x8A], [CHR 0xE2, CHR 0x80, CHR 0xA8],
      [CHR 0xE2, CHR 0x80, CHR 0xA9], [CHR 0xE2, CHR 0x80, CHR 0xAF],
      [CHR 0xE2, CHR 0x81, CHR 0x9F], [CHR 0xE3, CHR 0x80, CHR 0x80],
      [CHR 0xEF, CHR 0xBB, CHR 0xBF]]"

text \<open>Removing, from the front of a text, every leading occurrence of one of the pieces.\<close>

function strip :: "string list \<Rightarrow> string \<Rightarrow> string" where
  "strip ps s =
     (case find (\<lambda>p. p \<noteq> [] \<and> startsWith s p) ps of
        None \<Rightarrow> s
      | Some p \<Rightarrow> strip ps (drop (length p) s))"
  by pat_completeness auto
termination
proof (relation "measure (\<lambda>(ps, s). length s)")
  show "wf (measure (\<lambda>(ps, s). length s))" by simp
next
  fix ps :: "string list" and s p :: string
  assume "find (\<lambda>p. p \<noteq> [] \<and> startsWith s p) ps = Some p"
  then have "p \<noteq> []" and "take (length p) s = p"
    by (auto simp: find_Some_iff startsWith_def)
  then have "s \<noteq> []" and "0 < length p" by auto
  then show "((ps, drop (length p) s), (ps, s)) \<in> measure (\<lambda>(ps, s). length s)"
    by simp
qed

definition trimStart :: "string \<Rightarrow> string" where
  "trimStart s = strip white_space s"

definition trimEnd :: "string \<Rightarrow> string" where
  "trimEnd s = rev (strip (map rev white_space) (rev s))"

definition trim :: "string \<Rightarrow> string" where
  "trim s = trimEnd (trimStart s)"

text \<open>\<open>s.split(c)\<close> for a one-character separator: every occurrence cuts, empty pieces are kept.\<close>

fun split :: "string \<Rightarrow> char \<Rightarrow> string list" where
  "split [] c = [[]]"
| "split (x # xs) c =
     (if x = c then [] # split xs c
      else (x # hd (split xs c)) # tl (split xs c))"

text \<open>\<open>parts.join(sep)\<close>.\<close>

fun join :: "string list \<Rightarrow> string \<Rightarrow> string" where
  "join [] sep = []"
| "join [x] sep = x"
| "join (x # y # ys) sep = x @ sep @ join (y # ys) sep"

text \<open>\<open>s || d\<close> on text: the empty text is falsy.\<close>

definition or_else :: "string \<Rightarrow> string \<Rightarrow> string" where
  "or_else s d = (if s = [] then d else s)"

section \<open>JSON values\<close>

datatype json =
    JNull
  | JBool bool
  | JNum rat
  | JStr string
  | JArr "json list"
  | JObj "(string \<times> json) list"

section \<open>The MCP client: data\<close>

text \<open>The interfaces \<open>ChatCompletionTool\<close> and \<open>ChatCompletionMessage\<close> of the client.\<close>

record chat_function =
  fn_name :: string
  fn_description :: "string option"
  fn_parameters :: json

record ChatCompletionTool =
  tool_type :: string
  tool_function :: chat_function

record call_function =
  name :: string
  arguments :: string

record tool_call =
  call_id :: string
  type :: string
  func :: call_function

record ChatCompletionMessage =
  role :: string
  content :: "string option"
  tool_call_id :: "string option"
  tool_name :: "string option"
  tool_calls :: "tool_call list option"

text \<open>The answer of the provider: \<open>choices[i].message\<close>.\<close>

record choice =
  message :: ChatCompletionMessage

record chat_completion =
  choices :: "choice list option"

text \<open>The request sent to \<open>chat.completions.create\<close>, over the messages \<open>'m\<close> it carries.\<close>

record 'm chat_request =
  model :: string
  max_tokens :: nat
  req_messages :: "'m list"
  req_tools :: "ChatCompletionTool list option"

text \<open>
  The result of \<open>mcp.callTool\<close>: its \<open>content\<close> is a list of segments, a text, or
  any other value.
\<close>

record content_item =
  item_type :: string
  item_text :: "string option"

datatype tool_content =
    Segments "content_item list"
  | Plain string
  | Other json

record call_tool_result =
  result_content :: tool_content

text \<open>
  What the client does to the outside, in order. The \<open>debug\<close> and \<open>info\<close> lines of the
  logger are left out of the trace; its warnings and errors are kept.
\<close>

datatype 'm event =
    ModelCall "'m chat_request"
  | CallTool string json
  | Warn string
  | Error string "string option"
  | ConsoleLog string
  | Question string
  | SetLogLevel string

text \<open>
  The outside of the client, over a world \<open>'w\<close> that the provider and the MCP server may
  change at every call. A thrown value is kept as the text the handlers print for it
  (\<open>error.message\<close>, or \<open>String(error)\<close>). \<open>JSON.parse\<close> and \<open>JSON.stringify\<close> are
  the runtime's.
\<close>

record ('w, 'm) client_env =
  JSON_parse :: "string \<Rightarrow> string + json"
  JSON_stringify :: "json \<Rightarrow> string"
  JSON_stringify_indent :: "json \<Rightarrow> string"
  create :: "'w \<Rightarrow> 'm chat_request \<Rightarrow> (string + chat_completion) \<times> 'w"
  callTool :: "'w \<Rightarrow> string \<Rightarrow> json \<Rightarrow> (string + call_tool_result) \<times> 'w"

text \<open>The variables of one run of \<open>processQuery\<close>.\<close>

record ('w, 'm) query_state =
  world :: 'w
  trace :: "'m event list"
  messages :: "'m list"
  finalText :: "string list"
  toolResults :: "call_tool_result list"

section \<open>The query orchestrator\<close>

text \<open>
  The literals of \<open>processQuery\<close>, in the order of the source: the line that reports a
  tool call (\<open>[call tool NAME, arguments: ARGS]\<close>), the error line of a tool call
  (\<open>[error] tool NAME call failed: MESSAGE\<close>), the answer of a failed query
  (\<open>error while processing the query: MESSAGE\<close>), and the texts of the logger's
  warnings and errors.
\<close>

definition txt_call_open :: string where
  "txt_call_open =
     ''[''
     @ [CHR 0xE8, CHR 0xB0, CHR 0x83, CHR 0xE7, CHR 0x94, CHR 0xA8, CHR 0xE5, CHR 0xB7, CHR 0xA5]
     @ [CHR 0xE5, CHR 0x85, CHR 0xB7] @ '' ''"

definition txt_call_args :: string where
  "txt_call_args =
     [CHR 0xEF, CHR 0xBC, CHR 0x8C, CHR 0xE5, CHR 0x8F, CHR 0x82, CHR 0xE6, CHR 0x95, CHR 0xB0]
     @ [CHR 0xEF, CHR 0xBC, CHR 0x9A]"

definition txt_err_open :: string where
  "txt_err_open =
     ''['' @ [CHR 0xE9, CHR 0x94, CHR 0x99, CHR 0xE8, CHR 0xAF, CHR 0xAF] @ ''] ''
     @ [CHR 0xE5, CHR 0xB7, CHR 0xA5, CHR 0xE5, CHR 0x85, CHR 0xB7] @ '' ''"

definition txt_err_failed :: string where
  "txt_err_failed =
     '' ''
     @ [CHR 0xE8, CHR 0xB0, CHR 0x83, CHR 0xE7, CHR 0x94, CHR 0xA8, CHR 0xE5, CHR 0xA4, CHR 0xB1]
     @ [CHR 0xE8, CHR 0xB4, CHR 0xA5] @ '': ''"

definition txt_query_error :: string where
  "txt_query_error =
     [CHR 0xE5, CHR 0xA4, CHR 0x84, CHR 0xE7, CHR 0x90, CHR 0x86, CHR 0xE6, CHR 0x9F, CHR 0xA5]
     @ [CHR 0xE8, CHR 0xAF, CHR 0xA2, CHR 0xE6, CHR 0x97, CHR 0xB6, CHR 0xE5, CHR 0x8F, CHR 0x91]
     @ [CHR 0xE7, CHR 0x94, CHR 0x9F, CHR 0xE9, CHR 0x94, CHR 0x99, CHR 0xE8, CHR 0xAF, CHR 0xAF]
     @ '': ''"

definition log_tool_open :: string where
  "log_tool_open =
     [CHR 0xE5, CHR 0xB7, CHR 0xA5, CHR 0xE5, CHR 0x85, CHR 0xB7] @ '' ''"

definition log_tool_failed :: string where
  "log_tool_failed =
     '' ''
     @ [CHR 0xE8, CHR 0xB0, CHR 0x83, CHR 0xE7, CHR 0x94, CHR 0xA8, CHR 0xE5, CHR 0xA4, CHR 0xB1]
     @ [CHR 0xE8, CHR 0xB4, CHR 0xA5]"

definition log_no_tool :: string where
  "log_no_tool =
     [CHR 0xE6, CHR 0xA8, CHR 0xA1, CHR 0xE5, CHR 0x9E, CHR 0x8B, CHR 0xE6, CHR 0x9C, CHR 0xAA]
     @ [CHR 0xE9, CHR 0x80, CHR 0x89, CHR 0xE6, CHR 0x8B, CHR 0xA9, CHR 0xE8, CHR 0xB0, CHR 0x83]
     @ [CHR 0xE7, CHR 0x94, CHR 0xA8, CHR 0xE4, CHR 0xBB, CHR 0xBB, CHR 0xE4, CHR 0xBD, CHR 0x95]
     @ [CHR 0xE5, CHR 0xB7, CHR 0xA5, CHR 0xE5, CHR 0x85, CHR 0xB7, CHR 0xEF, CHR 0xBC, CHR 0x8C]
     @ [CHR 0xE7, CHR 0x9B, CHR 0xB4, CHR 0xE6, CHR 0x8E, CHR 0xA5, CHR 0xE8, CHR 0xBF, CHR 0x94]
     @ [CHR 0xE5, CHR 0x9B, CHR 0x9E, CHR 0xE6, CHR 0x96, CHR 0x87, CHR 0xE6, CHR 0x9C, CHR 0xAC]
     @ [CHR 0xE5, CHR 0x93, CHR 0x8D, CHR 0xE5, CHR 0xBA, CHR 0x94]"

definition log_no_choice :: string where
  "log_no_choice =
     ''DeepSeek''
     @ [CHR 0xE6, CHR 0xA8, CHR 0xA1, CHR 0xE5, CHR 0x9E, CHR 0x8B, CHR 0xE6, CHR 0x9C, CHR 0xAA]
     @ [CHR 0xE8, CHR 0xBF, CHR 0x94, CHR 0xE5, CHR 0x9B, CHR 0x9E, CHR 0xE4, CHR 0xBB, CHR 0xBB]
     @ [CHR 0xE4, CHR 0xBD, CHR 0x95, CHR 0xE9, CHR 0x80, CHR 0x89, CHR 0xE6, CHR 0x8B, CHR 0xA9]"

definition log_query_error :: string where
  "log_query_error =
     [CHR 0xE5, CHR 0xA4, CHR 0x84, CHR 0xE7, CHR 0x90, CHR 0x86, CHR 0xE6, CHR 0x9F, CHR 0xA5]
     @ [CHR 0xE8, CHR 0xAF, CHR 0xA2, CHR 0xE6, CHR 0x97, CHR 0xB6, CHR 0xE5, CHR 0x8F, CHR 0x91]
     @ [CHR 0xE7, CHR 0x94, CHR 0x9F, CHR 0xE9, CHR 0x94, CHR 0x99, CHR 0xE8, CHR 0xAF, CHR 0xAF]"

definition user_message :: "string \<Rightarrow> ChatCompletionMessage" where
  "user_message query =
     \<lparr>role = ''user'', content = Some query, tool_call_id = None, tool_name = None,
      tool_calls = None\<rparr>"

definition tool_message :: "string \<Rightarrow> string \<Rightarrow> string \<Rightarrow> ChatCompletionMessage" where
  "tool_message i toolName c =
     \<lparr>role = ''tool'', content = Some c, tool_call_id = Some i, tool_name = Some toolName,
      tool_calls = None\<rparr>"

text \<open>\<open>item.text || ""\<close>\<close>

definition text_or_empty :: "content_item \<Rightarrow> string" where
  "text_or_empty item = (case item_text item of Some t \<Rightarrow> or_else t [] | None \<Rightarrow> [])"

text \<open>The content of the tool message: the conditional expression of \<open>processQuery\<close>.\<close>

definition normalize_content :: "(json \<Rightarrow> string) \<Rightarrow> tool_content \<Rightarrow> string" where
  "normalize_content stringify c =
     (case c of
        Segments items \<Rightarrow> join (map text_or_empty items) nl
      | Plain s \<Rightarrow> s
      | Other v \<Rightarrow> stringify v)"

definition call_line :: "(json \<Rightarrow> string) \<Rightarrow> string \<Rightarrow> json \<Rightarrow> string" where
  "call_line stringify toolName toolArgs =
     txt_call_open @ toolName @ txt_call_args @ stringify toolArgs @ '']''"

definition error_line :: "string \<Rightarrow> string \<Rightarrow> string" where
  "error_line toolName err = txt_err_open @ toolName @ txt_err_failed @ err"

definition follow_up_request :: "'m list \<Rightarrow> 'm chat_request" where
  "follow_up_request ms =
     \<lparr>model = ''deepseek-chat'', max_tokens = 1000, req_messages = ms, req_tools = None\<rparr>"

definition first_request :: "'m list \<Rightarrow> ChatCompletionTool list \<Rightarrow> 'm chat_request" where
  "first_request ms ts =
     \<lparr>model = ''deepseek-chat'', max_tokens = 1000, req_messages = ms, req_tools = Some ts\<rparr>"

text \<open>The text of a message when it is truthy: \<open>if (message.content)\<close>.\<close>

definition content_text :: "ChatCompletionMessage \<Rightarrow> string list" where
  "content_text m = (case content m of Some t \<Rightarrow> (if t = [] then [] else [t]) | None \<Rightarrow> [])"

text \<open>
  \<open>followUpResponse.choices && followUpResponse.choices.length > 0 &&
  followUpResponse.choices[0].message.content\<close>
\<close>

definition follow_up_text :: "chat_completion \<Rightarrow> string list" where
  "follow_up_text r =
     (case choices r of
        Some (c # cs) \<Rightarrow> content_text (message c)
      | _ \<Rightarrow> [])"

text \<open>
  One tool call that has its arguments: the \<open>try\<close> block inside the loop of
  \<open>processQuery\<close>, with its \<open>catch\<close>. A failure of \<open>callTool\<close> or of the
  follow-up call of the model ends in the \<open>catch\<close>, which adds the error line.
\<close>

definition try_tool_call ::
  "('w, ChatCompletionMessage) client_env \<Rightarrow> ChatCompletionMessage \<Rightarrow> tool_call \<Rightarrow> string \<Rightarrow>
   json \<Rightarrow> ('w, ChatCompletionMessage) query_state \<Rightarrow> ('w, ChatCompletionMessage) query_state"
where
  "try_tool_call env choice_message toolCall toolName toolArgs s =
     (case callTool env (world s) toolName toolArgs of
        (Inl err, w1) \<Rightarrow>
          s\<lparr>world := w1,
            trace := trace s @ [CallTool toolName toolArgs,
                                Error (log_tool_open @ toolName @ log_tool_failed) (Some err)],
            finalText := finalText s @ [error_line toolName err]\<rparr>
      | (Inr result, w1) \<Rightarrow>
          (let messages1 = messages s @
                 [choice_message,
                  tool_message (call_id toolCall) toolName
                    (normalize_content (JSON_stringify env) (result_content result))];
               s1 = s\<lparr>world := w1,
                      trace := trace s @ [CallTool toolName toolArgs],
                      messages := messages1,
                      finalText := finalText s @ [call_line (JSON_stringify env) toolName toolArgs],
                      toolResults := toolResults s @ [result]\<rparr>
           in (case create env w1 (follow_up_request messages1) of
                 (Inl err, w2) \<Rightarrow>
                   s1\<lparr>world := w2,
                      trace := trace s1 @ [ModelCall (follow_up_request messages1),
                                Error (log_tool_open @ toolName @ log_tool_failed) (Some err)],
                      finalText := finalText s1 @ [error_line toolName err]\<rparr>
               | (Inr followUpResponse, w2) \<Rightarrow>
                   s1\<lparr>world := w2,
                      trace := trace s1 @ [ModelCall (follow_up_request messages1)],
                      finalText := finalText s1 @ follow_up_text followUpResponse\<rparr>)))"

text \<open>
  The loop over \<open>choice.message.tool_calls\<close>. \<open>JSON.parse\<close> of the arguments stands
  before the \<open>try\<close> block: when it throws, the loop is left with the thrown value
  (\<open>Some err\<close>), for the \<open>catch\<close> of the whole function.
\<close>

fun tool_loop ::
  "('w, ChatCompletionMessage) client_env \<Rightarrow> ChatCompletionMessage \<Rightarrow> tool_call list \<Rightarrow>
   ('w, ChatCompletionMessage) query_state \<Rightarrow>
   string option \<times> ('w, ChatCompletionMessage) query_state"
where
  "tool_loop env choice_message [] s = (None, s)"
| "tool_loop env choice_message (toolCall # rest) s =
     (if type toolCall = ''function'' then
        (case JSON_parse env (or_else (arguments (func toolCall)) ''{}'') of
           Inl err \<Rightarrow> (Some err, s)
         | Inr toolArgs \<Rightarrow>
             tool_loop env choice_message rest
               (try_tool_call env choice_message toolCall (name (func toolCall)) toolArgs s))
      else tool_loop env choice_message rest s)"

text \<open>The \<open>catch\<close> of the whole function: the answer is the error text.\<close>

definition query_failed ::
  "string \<Rightarrow> ('w, 'm) query_state \<Rightarrow> string \<times> ('w, 'm) query_state" where
  "query_failed err s =
     (txt_query_error @ err, s\<lparr>trace := trace s @ [Error log_query_error (Some err)]\<rparr>)"

definition query_done :: "('w, 'm) query_state \<Rightarrow> string \<times> ('w, 'm) query_state" where
  "query_done s = (join (finalText s) nl, s)"

text \<open>
  \<open>processQuery\<close> of the client with logging and error handling. It returns the answer
  and the final variables; the trace holds the events of this query.
\<close>

definition processQuery ::
  "('w, ChatCompletionMessage) client_env \<Rightarrow> ChatCompletionTool list \<Rightarrow> string \<Rightarrow> 'w \<Rightarrow>
   string \<times> ('w, ChatCompletionMessage) query_state"
where
  "processQuery env tools query w =
     (let messages0 = [user_message query];
          request = first_request messages0 tools
      in (case create env w request of
            (Inl err, w1) \<Rightarrow>
              query_failed err
                \<lparr>world = w1, trace = [ModelCall request], messages = messages0,
                 finalText = [], toolResults = []\<rparr>
          | (Inr response, w1) \<Rightarrow>
              (let s0 = \<lparr>world = w1, trace = [ModelCall request], messages = messages0,
                         finalText = [], toolResults = []\<rparr>
               in (case choices response of
                     Some (choice # others) \<Rightarrow>
                       (let s1 = s0\<lparr>finalText := content_text (message choice)\<rparr>
                        in (case tool_calls (message choice) of
                              Some (toolCall # rest) \<Rightarrow>
                                (case tool_loop env (message choice) (toolCall # rest) s1 of
                                   (Some err, s2) \<Rightarrow> query_failed err s2
                                 | (None, s2) \<Rightarrow> query_done s2)
                            | _ \<Rightarrow> query_done (s1\<lparr>trace := trace s1 @ [Warn log_no_tool]\<rparr>)))
                   | _ \<Rightarrow> query_done (s0\<lparr>trace := trace s0 @ [Warn log_no_choice]\<rparr>)))))"

section \<open>The client without error handling\<close>

text \<open>
  \<open>mcp-client-typescript/index.ts\<close> holds a second \<open>processQuery\<close>, with no
  \<open>try\<close> anywhere: a thrown value leaves the function (\<open>Inl\<close>). Its tool message
  takes \<open>result.content as string\<close>, a cast that converts nothing, so the conversation
  holds the content of the result as it came.
\<close>

datatype plain_message =
    Typed ChatCompletionMessage
  | ToolRaw string string tool_content

fun tool_loop_plain ::
  "('w, plain_message) client_env \<Rightarrow> ChatCompletionMessage \<Rightarrow> tool_call list \<Rightarrow>
   ('w, plain_message) query_state \<Rightarrow> string option \<times> ('w, plain_message) query_state"
where
  "tool_loop_plain env choice_message [] s = (None, s)"
| "tool_loop_plain env choice_message (toolCall # rest) s =
     (if type toolCall = ''function'' then
        (case JSON_parse env (or_else (arguments (func toolCall)) ''{}'') of
           Inl err \<Rightarrow> (Some err, s)
         | Inr toolArgs \<Rightarrow>
             (case callTool env (world s) (name (func toolCall)) toolArgs of
                (Inl err, w1) \<Rightarrow>
                  (Some err,
                   s\<lparr>world := w1,
                     trace := trace s @ [CallTool (name (func toolCall)) toolArgs]\<rparr>)
              | (Inr result, w1) \<Rightarrow>
                  (case create env w1
                          (follow_up_request
                             (messages s @
                                [Typed choice_message,
                                 ToolRaw (call_id toolCall) (name (func toolCall))
                                   (result_content result)])) of
                     (Inl err, w2) \<Rightarrow>
                       (Some err,
                        s\<lparr>world := w2,
                          trace := trace s @
                            [CallTool (name (func toolCall)) toolArgs,
                             ModelCall (follow_up_request
                               (messages s @
                                  [Typed choice_message,
                                   ToolRaw (call_id toolCall) (name (func toolCall))
                                     (result_content result)]))],
                          messages := messages s @
                            [Typed choice_message,
                             ToolRaw (call_id toolCall) (name (func toolCall))
                               (result_content result)],
                          finalText := finalText s @
                            [call_line (JSON_stringify env) (name (func toolCall)) toolArgs],
                          toolResults := toolResults s @ [result]\<rparr>)
                   | (Inr followUpResponse, w2) \<Rightarrow>
                       tool_loop_plain env choice_message rest
                         (s\<lparr>world := w2,
                            trace := trace s @
                              [CallTool (name (func toolCall)) toolArgs,
                               ModelCall (follow_up_request
                                 (messages s @
                                    [Typed choice_message,
                                     ToolRaw (call_id toolCall) (name (func toolCall))
                                       (result_content result)]))],
                            messages := messages s @
                              [Typed choice_message,
                               ToolRaw (call_id toolCall) (name (func toolCall))
                                 (result_content result)],
                            finalText := finalText s @
                              [call_line (JSON_stringify env) (name (func toolCall)) toolArgs]
                              @ follow_up_text followUpResponse,
                            toolResults := toolResults s @ [result]\<rparr>))))
      else tool_loop_plain env choice_message rest s)"

definition processQuery_plain ::
  "('w, plain_message) client_env \<Rightarrow> ChatCompletionTool list \<Rightarrow> string \<Rightarrow> 'w \<Rightarrow>
   (string + string) \<times> ('w, plain_message) query_state"
where
  "processQuery_plain env tools query w =
     (let messages0 = [Typed (user_message query)];
          request = first_request messages0 tools
      in (case create env w request of
            (Inl err, w1) \<Rightarrow>
              (Inl err,
               \<lparr>world = w1, trace = [ModelCall request], messages = messages0,
                finalText = [], toolResults = []\<rparr>)
          | (Inr response, w1) \<Rightarrow>
              (let s0 = \<lparr>world = w1, trace = [ModelCall request], messages = messages0,
                         finalText = [], toolResults = []\<rparr>
               in (case choices response of
                     Some (choice # others) \<Rightarrow>
                       (let s1 = s0\<lparr>finalText := content_text (message choice)\<rparr>
                        in (case tool_calls (message choice) of
                              Some (toolCall # rest) \<Rightarrow>
                                (case tool_loop_plain env (message choice) (toolCall # rest) s1 of
                                   (Some err, s2) \<Rightarrow> (Inl err, s2)
                                 | (None, s2) \<Rightarrow> (Inr (join (finalText s2) nl), s2))
                            | _ \<Rightarrow> (Inr (join (finalText s1) nl), s1)))
                   | _ \<Rightarrow> (Inr (join (finalText s0) nl), s0)))))"

section \<open>The interactive loop\<close>

text \<open>
  The literals of \<open>directToolCall\<close> and \<open>chatLoop\<close>: the answer of a direct call
  (\<open>tool NAME call result:\<close> and a newline, then the content), its failure text
  (\<open>call of tool NAME failed: MESSAGE\<close>), the four lines printed at the start, the
  prompt, the two lines that confirm a change of the log level, and the warning for
  arguments that do not parse.
\<close>

definition txt_direct_open :: string where
  "txt_direct_open =
     [CHR 0xE5, CHR 0xB7, CHR 0xA5, CHR 0xE5, CHR 0x85, CHR 0xB7] @ '' ''"

definition txt_direct_result :: string where
  "txt_direct_result =
     '' ''
     @ [CHR 0xE8, CHR 0xB0, CHR 0x83, CHR 0xE7, CHR 0x94, CHR 0xA8, CHR 0xE7, CHR 0xBB, CHR 0x93]
     @ [CHR 0xE6, CHR 0x9E, CHR 0x9C] @ '':'' @ [CHR 0x0A]"

definition txt_direct_fail_open :: string where
  "txt_direct_fail_open =
     [CHR 0xE8, CHR 0xB0, CHR 0x83, CHR 0xE7, CHR 0x94, CHR 0xA8, CHR 0xE5, CHR 0xB7, CHR 0xA5]
     @ [CHR 0xE5, CHR 0x85, CHR 0xB7] @ '' ''"

definition txt_direct_fail :: string where
  "txt_direct_fail =
     '' '' @ [CHR 0xE5, CHR 0xA4, CHR 0xB1, CHR 0xE8, CHR 0xB4, CHR 0xA5] @ '': ''"

definition log_direct_failed :: string where
  "log_direct_failed =
     [CHR 0xE7, CHR 0x9B, CHR 0xB4, CHR 0xE6, CHR 0x8E, CHR 0xA5, CHR 0xE5, CHR 0xB7, CHR 0xA5]
     @ [CHR 0xE5, CHR 0x85, CHR 0xB7, CHR 0xE8, CHR 0xB0, CHR 0x83, CHR 0xE7, CHR 0x94, CHR 0xA8]
     @ [CHR 0xE5, CHR 0xA4, CHR 0xB1, CHR 0xE8, CHR 0xB4, CHR 0xA5] @ '': ''"

definition txt_banner1 :: string where
  "txt_banner1 =
     [CHR 0x0A] @ ''MCP''
     @ [CHR 0xE5, CHR 0xAE, CHR 0xA2, CHR 0xE6, CHR 0x88, CHR 0xB7, CHR 0xE7, CHR 0xAB, CHR 0xAF]
     @ [CHR 0xE5, CHR 0xB7, CHR 0xB2, CHR 0xE5, CHR 0x90, CHR 0xAF, CHR 0xE5, CHR 0x8A, CHR 0xA8]
     @ [CHR 0xEF, CHR 0xBC, CHR 0x81]"

definition txt_banner2 :: string where
  "txt_banner2 =
     [CHR 0xE8, CHR 0xBE, CHR 0x93, CHR 0xE5, CHR 0x85, CHR 0xA5, CHR 0xE6, CHR 0x82, CHR 0xA8]
     @ [CHR 0xE7, CHR 0x9A, CHR 0x84, CHR 0xE9, CHR 0x97, CHR 0xAE, CHR 0xE9, CHR 0xA2, CHR 0x98]
     @ [CHR 0xE6, CHR 0x88, CHR 0x96, CHR 0xE8, CHR 0xBE, CHR 0x93, CHR 0xE5, CHR 0x85, CHR 0xA5]
     @ [CHR 0x27] @ ''quit''
     @ [CHR 0x27, CHR 0xE9, CHR 0x80, CHR 0x80, CHR 0xE5, CHR 0x87, CHR 0xBA, CHR 0xE3, CHR 0x80]
     @ [CHR 0x82]"

definition txt_banner3 :: string where
  "txt_banner3 =
     [CHR 0xE8, CHR 0xBE, CHR 0x93, CHR 0xE5, CHR 0x85, CHR 0xA5, CHR 0x27] @ ''debug''
     @ [CHR 0x27, CHR 0xE5, CHR 0x88, CHR 0x87, CHR 0xE6, CHR 0x8D, CHR 0xA2, CHR 0xE5, CHR 0x88]
     @ [CHR 0xB0, CHR 0xE8, CHR 0xB0, CHR 0x83, CHR 0xE8, CHR 0xAF, CHR 0x95, CHR 0xE6, CHR 0xA8]
     @ [CHR 0xA1, CHR 0xE5, CHR 0xBC, CHR 0x8F, CHR 0xEF, CHR 0xBC, CHR 0x8C, CHR 0x27]
     @ ''info''
     @ [CHR 0x27, CHR 0xE5, CHR 0x88, CHR 0x87, CHR 0xE6, CHR 0x8D, CHR 0xA2, CHR 0xE5, CHR 0x88]
     @ [CHR 0xB0, CHR 0xE6, CHR 0xA0, CHR 0x87, CHR 0xE5, CHR 0x87, CHR 0x86, CHR 0xE6, CHR 0xA8]
     @ [CHR 0xA1, CHR 0xE5, CHR 0xBC, CHR 0x8F, CHR 0xE3, CHR 0x80, CHR 0x82]"

definition txt_banner4 :: string where
  "txt_banner4 =
     [CHR 0xE8, CHR 0xBE, CHR 0x93, CHR 0xE5, CHR 0x85, CHR 0xA5, CHR 0x27] @ ''tool:''
     @ [CHR 0xE5, CHR 0x90, CHR 0x8D, CHR 0xE7, CHR 0xA7, CHR 0xB0] @ '' [''
     @ [CHR 0xE5, CHR 0x8F, CHR 0x82, CHR 0xE6, CHR 0x95, CHR 0xB0] @ '']''
     @ [CHR 0x27, CHR 0xE7, CHR 0x9B, CHR 0xB4, CHR 0xE6, CHR 0x8E, CHR 0xA5, CHR 0xE8, CHR 0xB0]
     @ [CHR 0x83, CHR 0xE7, CHR 0x94, CHR 0xA8, CHR 0xE5, CHR 0xB7, CHR 0xA5, CHR 0xE5, CHR 0x85]
     @ [CHR 0xB7, CHR 0xEF, CHR 0xBC, CHR 0x8C, CHR 0xE4, CHR 0xBE, CHR 0x8B, CHR 0xE5, CHR 0xA6]
     @ [CHR 0x82] @ '' '' @ [CHR 0x27] @ ''tool:get-installed-apps'' @ [CHR 0x27]"

definition txt_prompt :: string where
  "txt_prompt =
     [CHR 0x0A, CHR 0xE9, CHR 0x97, CHR 0xAE, CHR 0xE9, CHR 0xA2, CHR 0x98] @ '': ''"

definition txt_debug_mode :: string where
  "txt_debug_mode =
     [CHR 0x0A, CHR 0xE5, CHR 0xB7, CHR 0xB2, CHR 0xE5, CHR 0x88, CHR 0x87, CHR 0xE6, CHR 0x8D]
     @ [CHR 0xA2, CHR 0xE5, CHR 0x88, CHR 0xB0, CHR 0xE8, CHR 0xB0, CHR 0x83, CHR 0xE8, CHR 0xAF]
     @ [CHR 0x95, CHR 0xE6, CHR 0xA8, CHR 0xA1, CHR 0xE5, CHR 0xBC, CHR 0x8F, CHR 0xEF, CHR 0xBC]
     @ [CHR 0x8C, CHR 0xE5, CHR 0xB0, CHR 0x86, CHR 0xE6, CHR 0x98, CHR 0xBE, CHR 0xE7, CHR 0xA4]
     @ [CHR 0xBA, CHR 0xE8, CHR 0xAF, CHR 0xA6, CHR 0xE7, CHR 0xBB, CHR 0x86, CHR 0xE6, CHR 0x97]
     @ [CHR 0xA5, CHR 0xE5, CHR 0xBF, CHR 0x97, CHR 0xE4, CHR 0xBF, CHR 0xA1, CHR 0xE6, CHR 0x81]
     @ [CHR 0xAF]"

definition txt_info_mode :: string where
  "txt_info_mode =
     [CHR 0x0A, CHR 0xE5, CHR 0xB7, CHR 0xB2, CHR 0xE5, CHR 0x88, CHR 0x87, CHR 0xE6, CHR 0x8D]
     @ [CHR 0xA2, CHR 0xE5, CHR 0x88, CHR 0xB0, CHR 0xE6, CHR 0xA0, CHR 0x87, CHR 0xE5, CHR 0x87]
     @ [CHR 0x86, CHR 0xE6, CHR 0xA8, CHR 0xA1, CHR 0xE5, CHR 0xBC, CHR 0x8F, CHR 0xEF, CHR 0xBC]
     @ [CHR 0x8C, CHR 0xE5, CHR 0xB0, CHR 0x86, CHR 0xE5, CHR 0x8F, CHR 0xAA, CHR 0xE6, CHR 0x98]
     @ [CHR 0xBE, CHR 0xE7, CHR 0xA4, CHR 0xBA, CHR 0xE9, CHR 0x87, CHR 0x8D, CHR 0xE8, CHR 0xA6]
     @ [CHR 0x81, CHR 0xE6, CHR 0x97, CHR 0xA5, CHR 0xE5, CHR 0xBF, CHR 0x97, CHR 0xE4, CHR 0xBF]
     @ [CHR 0xA1, CHR 0xE6, CHR 0x81, CHR 0xAF]"

definition log_bad_args :: string where
  "log_bad_args =
     [CHR 0xE6, CHR 0x97, CHR 0xA0, CHR 0xE6, CHR 0xB3, CHR 0x95, CHR 0xE8, CHR 0xA7, CHR 0xA3]
     @ [CHR 0xE6, CHR 0x9E, CHR 0x90, CHR 0xE5, CHR 0x8F, CHR 0x82, CHR 0xE6, CHR 0x95, CHR 0xB0]
     @ ''JSON''
     @ [CHR 0xEF, CHR 0xBC, CHR 0x8C, CHR 0xE4, CHR 0xBD, CHR 0xBF, CHR 0xE7, CHR 0x94, CHR 0xA8]
     @ [CHR 0xE7, CHR 0xA9, CHR 0xBA, CHR 0xE5, CHR 0x8F, CHR 0x82, CHR 0xE6, CHR 0x95, CHR 0xB0]"

text \<open>
  \<open>directToolCall\<close>: the answer, the world after the call and the events. The content
  is flattened as in \<open>processQuery\<close>, with \<open>JSON.stringify(content, null, 2)\<close> for
  a content that is neither a list nor a text.
\<close>

definition directToolCall ::
  "('w, 'm) client_env \<Rightarrow> string \<Rightarrow> json \<Rightarrow> 'w \<Rightarrow> string \<times> 'w \<times> 'm event list" where
  "directToolCall env toolName args w =
     (case callTool env w toolName args of
        (Inl err, w1) \<Rightarrow>
          (txt_direct_fail_open @ toolName @ txt_direct_fail @ err, w1,
           [CallTool toolName args, Error (log_direct_failed @ toolName) (Some err)])
      | (Inr result, w1) \<Rightarrow>
          (txt_direct_open @ toolName @ txt_direct_result @
             normalize_content (JSON_stringify_indent env) (result_content result),
           w1, [CallTool toolName args]))"

text \<open>
  The arguments of a \<open>tool:\<close> line: \<open>{}\<close> unless there is more than one part and the
  rest parses; a rest that does not parse gives the warning and leaves \<open>{}\<close>.
\<close>

definition tool_line_args ::
  "('w, 'm) client_env \<Rightarrow> string list \<Rightarrow> json \<times> 'm event list" where
  "tool_line_args env toolParts =
     (if length toolParts > 1 then
        (case JSON_parse env (join (tl toolParts) '' '') of
           Inl e \<Rightarrow> (JObj [], [Warn log_bad_args])
         | Inr v \<Rightarrow> (v, []))
      else (JObj [], []))"

text \<open>
  The \<open>while (true)\<close> of \<open>chatLoop\<close>, over the lines the operator types. The loop
  ends at a \<open>quit\<close> line; when the lines are used up it is left waiting in
  \<open>question\<close>. The variable \<open>message\<close> of the source is \<open>line\<close> here. The commands
  \<open>debug\<close> and \<open>info\<close> assign \<open>process.env.LOG_LEVEL\<close> (\<open>SetLogLevel\<close>). The
  \<open>catch\<close> blocks of a turn are never entered: \<open>directToolCall\<close> and
  \<open>processQuery\<close> catch what they call themselves. The \<open>rl.close()\<close> that follows the
  loop is not in the trace.
\<close>

datatype loop_end = Quit | Waiting | Rejected string

fun chat_lines ::
  "('w, ChatCompletionMessage) client_env \<Rightarrow> ChatCompletionTool list \<Rightarrow> string list \<Rightarrow>
   'w \<Rightarrow> ChatCompletionMessage event list \<Rightarrow>
   loop_end \<times> 'w \<times> ChatCompletionMessage event list"
where
  "chat_lines env tools [] w tr = (Waiting, w, tr @ [Question txt_prompt])"
| "chat_lines env tools (line # rest) w tr =
     (if toLowerCase line = ''quit'' then (Quit, w, tr @ [Question txt_prompt])
      else if toLowerCase line = ''debug'' then
        chat_lines env tools rest w
          (tr @ [Question txt_prompt, SetLogLevel ''debug'', ConsoleLog txt_debug_mode])
      else if toLowerCase line = ''info'' then
        chat_lines env tools rest w
          (tr @ [Question txt_prompt, SetLogLevel ''info'', ConsoleLog txt_info_mode])
      else if startsWith line ''tool:'' then
        (let toolParts = split (trim (substring line 5)) CHR '' '';
             toolName = hd toolParts;
             (args, warning) = tool_line_args env toolParts;
             (response, w1, events) = directToolCall env toolName args w
         in chat_lines env tools rest w1
              (tr @ [Question txt_prompt] @ warning @ events @ [ConsoleLog (nl @ response)]))
      else
        (let (response, s) = processQuery env tools line w
         in chat_lines env tools rest (world s)
              (tr @ [Question txt_prompt] @ trace s @ [ConsoleLog (nl @ response)])))"

definition chatLoop ::
  "('w, ChatCompletionMessage) client_env \<Rightarrow> ChatCompletionTool list \<Rightarrow> string list \<Rightarrow>
   'w \<Rightarrow> loop_end \<times> 'w \<times> ChatCompletionMessage event list"
where
  "chatLoop env tools lines w =
     chat_lines env tools lines w
       [ConsoleLog txt_banner1, ConsoleLog txt_banner2, ConsoleLog txt_banner3,
        ConsoleLog txt_banner4]"

text \<open>
  The loop of \<open>mcp-client-typescript/index.ts\<close>: only \<open>quit\<close> is special, and a
  value thrown by \<open>processQuery\<close> leaves the loop.
\<close>

fun chat_lines_plain ::
  "('w, plain_message) client_env \<Rightarrow> ChatCompletionTool list \<Rightarrow> string list \<Rightarrow>
   'w \<Rightarrow> plain_message event list \<Rightarrow> loop_end \<times> 'w \<times> plain_message event list"
where
  "chat_lines_plain env tools [] w tr = (Waiting, w, tr @ [Question txt_prompt])"
| "chat_lines_plain env tools (line # rest) w tr =
     (if toLowerCase line = ''quit'' then (Quit, w, tr @ [Question txt_prompt])
      else
        (case processQuery_plain env tools line w of
           (Inl err, s) \<Rightarrow> (Rejected err, world s, tr @ [Question txt_prompt] @ trace s)
         | (Inr response, s) \<Rightarrow>
             chat_lines_plain env tools rest (world s)
               (tr @ [Question txt_prompt] @ trace s @ [ConsoleLog (nl @ response)])))"

definition chatLoop_plain ::
  "('w, plain_message) client_env \<Rightarrow> ChatCompletionTool list \<Rightarrow> string list \<Rightarrow>
   'w \<Rightarrow> loop_end \<times> 'w \<times> plain_message event list"
where
  "chatLoop_plain env tools lines w =
     chat_lines_plain env tools lines w [ConsoleLog txt_banner1, ConsoleLog txt_banner2]"

section \<open>The weather server: the rate-limited fetch helper\<close>

text \<open>
  Numbers are rationals here; the source has IEEE doubles, which the model only compares
  and hands to the runtime's formatting functions. \<open>parseInt\<close> skips white space and
  reads a sign, an optional \<open>0x\<close> and the longest run of digits; \<open>None\<close> is \<open>NaN\<close>. Of the
  logger of the server, too, the warnings and errors are kept and the \<open>debug\<close> and
  \<open>info\<close> lines left out.
\<close>

text \<open>The value of a digit in any radix up to 36; 36 for a character that is no digit.\<close>

definition digit_value :: "char \<Rightarrow> nat" where
  "digit_value c =
     length (takeWhile (\<lambda>d. d \<noteq> lower_char c) ''0123456789abcdefghijklmnopqrstuvwxyz'')"

definition parseInt :: "string \<Rightarrow> int option" where
  "parseInt s =
     (let s1 = trimStart s;
          negative = (take 1 s1 = ''-'');
          s2 = (if take 1 s1 = ''-'' \<or> take 1 s1 = ''+'' then drop 1 s1 else s1);
          hex = (take 2 s2 = ''0x'' \<or> take 2 s2 = ''0X'');
          radix = (if hex then 16 else 10);
          s3 = (if hex then drop 2 s2 else s2);
          ds = takeWhile (\<lambda>c. digit_value c < radix) s3;
          n = foldl (\<lambda>a c. a * radix + digit_value c) 0 ds
      in if ds = [] then None
         else Some (if negative then - int n else int n))"

text \<open>The decimal text of a natural number, as a template literal prints it.\<close>

definition digit_char :: "nat \<Rightarrow> char" where
  "digit_char d = ''0123456789'' ! d"

function show_nat :: "nat \<Rightarrow> string" where
  "show_nat n = (if n < 10 then [digit_char n] else show_nat (n div 10) @ [digit_char (n mod 10)])"
  by pat_completeness auto
termination
  by (relation "measure id") auto

definition NWS_API_BASE :: string where
  "NWS_API_BASE = ''https://api.weather.gov''"

definition USER_AGENT :: string where
  "USER_AGENT = ''weather-app/1.0''"

text \<open>
  The literals of \<open>makeNWSRequest\<close>: the message of the HTTP error
  (\<open>HTTP error! status: CODE, URL: URL\<close>), the warning before a retry and the error
  that is logged when the request fails.
\<close>

definition txt_http_error :: string where
  "txt_http_error =
     ''HTTP''
     @ [CHR 0xE9, CHR 0x94, CHR 0x99, CHR 0xE8, CHR 0xAF, CHR 0xAF, CHR 0xEF, CHR 0xBC, CHR 0x81]
     @ [CHR 0xE7, CHR 0x8A, CHR 0xB6, CHR 0xE6, CHR 0x80, CHR 0x81, CHR 0xE7, CHR 0xA0, CHR 0x81]
     @ '': ''"

definition log_rate_limited1 :: string where
  "log_rate_limited1 =
     [CHR 0xE8, CHR 0xAF, CHR 0xB7, CHR 0xE6, CHR 0xB1, CHR 0x82, CHR 0xE9, CHR 0x80, CHR 0x9F]
     @ [CHR 0xE7, CHR 0x8E, CHR 0x87, CHR 0xE5, CHR 0x8F, CHR 0x97, CHR 0xE9, CHR 0x99, CHR 0x90]
     @ [CHR 0xEF, CHR 0xBC, CHR 0x8C, CHR 0xE5, CHR 0xB0, CHR 0x86, CHR 0xE5, CHR 0x9C, CHR 0xA8]"

definition log_rate_limited2 :: string where
  "log_rate_limited2 =
     [CHR 0xE7, CHR 0xA7, CHR 0x92, CHR 0xE5, CHR 0x90, CHR 0x8E, CHR 0xE9, CHR 0x87, CHR 0x8D]
     @ [CHR 0xE8, CHR 0xAF, CHR 0x95] @ '': ''"

definition log_nws_error :: string where
  "log_nws_error =
     [CHR 0xE8, CHR 0xAF, CHR 0xB7, CHR 0xE6, CHR 0xB1, CHR 0x82] @ ''NWS API''
     @ [CHR 0xE6, CHR 0x97, CHR 0xB6, CHR 0xE5, CHR 0x8F, CHR 0x91, CHR 0xE7, CHR 0x94, CHR 0x9F]
     @ [CHR 0xE9, CHR 0x94, CHR 0x99, CHR 0xE8, CHR 0xAF, CHR 0xAF] @ '': ''"

text \<open>
  A response of \<open>fetch\<close>: the status, the \<open>Retry-After\<close> header when there is one,
  and what \<open>response.json()\<close> gives (it may throw).
\<close>

record 'd http_response =
  status :: nat
  retry_after :: "string option"
  body :: "string + 'd"

definition ok :: "'d http_response \<Rightarrow> bool" where
  "ok response = (200 \<le> status response \<and> status response \<le> 299)"

text \<open>\<open>response.headers.get('Retry-After') || '5'\<close>\<close>

definition retryAfter :: "'d http_response \<Rightarrow> string" where
  "retryAfter response = (case retry_after response of Some h \<Rightarrow> or_else h ''5'' | None \<Rightarrow> ''5'')"

text \<open>
  What the server does to the outside: \<open>Delay\<close> is a \<open>setTimeout\<close> that is awaited,
  with its delay in milliseconds (\<open>None\<close> for \<open>NaN\<close>); \<open>Fetch\<close> is a GET of the
  URL with the headers given.
\<close>

datatype server_event =
    Delay "int option"
  | Fetch string "(string \<times> string) list"
  | LogWarn string
  | LogError string string

definition headers :: "(string \<times> string) list" where
  "headers = [(''User-Agent'', USER_AGENT), (''Accept'', ''application/geo+json'')]"

definition rate_limited_events :: "string \<Rightarrow> 'd http_response \<Rightarrow> server_event list" where
  "rate_limited_events url response =
     [Delay (Some 500), Fetch url headers,
      LogWarn (log_rate_limited1 @ retryAfter response @ log_rate_limited2 @ url),
      Delay (map_option (\<lambda>n. n * 1000) (parseInt (retryAfter response)))]"

text \<open>
  \<open>makeNWSRequest\<close>. On status 429 it calls itself again, with nothing that counts the
  calls, so it need not return: the result \<open>None\<close> is a run that never ends. A run that
  ends gives the data or \<open>null\<close> (here \<open>None\<close> inside), the world and the events.
\<close>

partial_function (option) makeNWSRequest ::
  "('w \<Rightarrow> string \<Rightarrow> (string + 'd http_response) \<times> 'w) \<Rightarrow> string \<Rightarrow> 'w \<Rightarrow>
   server_event list \<Rightarrow> ('d option \<times> 'w \<times> server_event list) option"
where
  "makeNWSRequest fetch url w tr =
     (case fetch w url of
        (Inl err, w1) \<Rightarrow>
          Some (None, w1,
                tr @ [Delay (Some 500), Fetch url headers, LogError (log_nws_error @ url) err])
      | (Inr response, w1) \<Rightarrow>
          if status response = 429 then
            makeNWSRequest fetch url w1 (tr @ rate_limited_events url response)
          else if \<not> ok response then
            Some (None, w1,
                  tr @ [Delay (Some 500), Fetch url headers,
                        LogError (log_nws_error @ url)
                          (txt_http_error @ show_nat (status response) @ '', URL: '' @ url)])
          else
            (case body response of
               Inl err \<Rightarrow>
                 Some (None, w1,
                       tr @ [Delay (Some 500), Fetch url headers,
                             LogError (log_nws_error @ url) err])
             | Inr data \<Rightarrow> Some (Some data, w1, tr @ [Delay (Some 500), Fetch url headers])))"

section \<open>The weather server: tool handlers\<close>

text \<open>The interfaces of the answers of the weather service; \<open>?\<close> fields are options.\<close>

record alert_properties =
  event :: "string option"
  areaDesc :: "string option"
  severity :: "string option"
  alert_status :: "string option"
  headline :: "string option"
  sent :: "rat option"

record AlertFeature =
  properties :: alert_properties

record AlertsResponse =
  features :: "AlertFeature list option"

record points_properties =
  forecast :: "string option"

record PointsResponse =
  points :: "points_properties option"

record ForecastPeriod =
  period_name :: "string option"
  temperature :: "rat option"
  temperatureUnit :: "string option"
  windSpeed :: "string option"
  windDirection :: "string option"
  shortForecast :: "string option"

record forecast_properties =
  periods :: "ForecastPeriod list option"

record ForecastResponse =
  forecast_props :: "forecast_properties option"

text \<open>
  The outside of the server: the weather service, answering each kind of request with the
  type the handler casts it to, the clock, and the runtime's \<open>toUpperCase\<close> (which
  knows the letters of every script) and its formatting of dates and numbers.
\<close>

record 'w server_env =
  fetch_alerts :: "'w \<Rightarrow> string \<Rightarrow> (string + AlertsResponse http_response) \<times> 'w"
  fetch_points :: "'w \<Rightarrow> string \<Rightarrow> (string + PointsResponse http_response) \<times> 'w"
  fetch_forecast :: "'w \<Rightarrow> string \<Rightarrow> (string + ForecastResponse http_response) \<times> 'w"
  Date_now :: "'w \<Rightarrow> rat"
  toUpperCase :: "string \<Rightarrow> string"
  toLocaleString :: "rat \<Rightarrow> string"
  Number_toString :: "rat \<Rightarrow> string"
  toFixed :: "rat \<Rightarrow> nat \<Rightarrow> string"

text \<open>
  The literals of the handlers: the texts of \<open>withErrorHandling\<close>, the warnings and
  failure texts of \<open>get-alerts\<close> and \<open>get-forecast\<close>, and the labels of a forecast.
\<close>

definition log_tool_exec_failed :: string where
  "log_tool_exec_failed =
     [CHR 0xE5, CHR 0xB7, CHR 0xA5, CHR 0xE5, CHR 0x85, CHR 0xB7, CHR 0xE6, CHR 0x89, CHR 0xA7]
     @ [CHR 0xE8, CHR 0xA1, CHR 0x8C, CHR 0xE5, CHR 0xA4, CHR 0xB1, CHR 0xE8, CHR 0xB4, CHR 0xA5]
     @ '': ''"

definition txt_tool_exec_error :: string where
  "txt_tool_exec_error =
     [CHR 0xE6, CHR 0x89, CHR 0xA7, CHR 0xE8, CHR 0xA1, CHR 0x8C, CHR 0xE5, CHR 0xB7, CHR 0xA5]
     @ [CHR 0xE5, CHR 0x85, CHR 0xB7, CHR 0xE6, CHR 0x97, CHR 0xB6, CHR 0xE5, CHR 0x8F, CHR 0x91]
     @ [CHR 0xE7, CHR 0x94, CHR 0x9F, CHR 0xE9, CHR 0x94, CHR 0x99, CHR 0xE8, CHR 0xAF, CHR 0xAF]
     @ '': ''"



definition txt_points_failed1 :: string where
  "txt_points_failed1 =
     [CHR 0xE6, CHR 0x97, CHR 0xA0, CHR 0xE6, CHR 0xB3, CHR 0x95, CHR 0xE8, CHR 0x8E, CHR 0xB7]
     @ [CHR 0xE5, CHR 0x8F, CHR 0x96, CHR 0xE5, CHR 0x9D, CHR 0x90, CHR 0xE6, CHR 0xA0, CHR 0x87]
     @ ''(''"

definition txt_points_failed2 :: string where
  "txt_points_failed2 =
     '')''
     @ [CHR 0xE7, CHR 0x9A, CHR 0x84, CHR 0xE7, CHR 0xBD, CHR 0x91, CHR 0xE6, CHR 0xA0, CHR 0xBC]
     @ [CHR 0xE7, CHR 0x82, CHR 0xB9, CHR 0xE6, CHR 0x95, CHR 0xB0, CHR 0xE6, CHR 0x8D, CHR 0xAE]
     @ [CHR 0xE3, CHR 0x80, CHR 0x82, CHR 0xE8, CHR 0xAF, CHR 0xA5, CHR 0xE4, CHR 0xBD, CHR 0x8D]
     @ [CHR 0xE7, CHR 0xBD, CHR 0xAE, CHR 0xE5, CHR 0x8F, CHR 0xAF, CHR 0xE8, CHR 0x83, CHR 0xBD]
     @ [CHR 0xE4, CHR 0xB8, CHR 0x8D, CHR 0xE5, CHR 0x8F, CHR 0x97] @ ''NWS API''
     @ [CHR 0xE6, CHR 0x94, CHR 0xAF, CHR 0xE6, CHR 0x8C, CHR 0x81, CHR 0xEF, CHR 0xBC, CHR 0x88]
     @ [CHR 0xE4, CHR 0xBB, CHR 0x85, CHR 0xE6, CHR 0x94, CHR 0xAF, CHR 0xE6, CHR 0x8C, CHR 0x81]
     @ [CHR 0xE7, CHR 0xBE, CHR 0x8E, CHR 0xE5, CHR 0x9B, CHR 0xBD, CHR 0xE5, CHR 0x9C, CHR 0xB0]
     @ [CHR 0xE5, CHR 0x8C, CHR 0xBA, CHR 0xEF, CHR 0xBC, CHR 0x89, CHR 0xE3, CHR 0x80, CHR 0x82]"

definition log_points_failed2 :: string where
  "log_points_failed2 =
     '')''
     @ [CHR 0xE7, CHR 0x9A, CHR 0x84, CHR 0xE7, CHR 0xBD, CHR 0x91, CHR 0xE6, CHR 0xA0, CHR 0xBC]
     @ [CHR 0xE7, CHR 0x82, CHR 0xB9, CHR 0xE6, CHR 0x95, CHR 0xB0, CHR 0xE6, CHR 0x8D, CHR 0xAE]"

definition txt_no_forecast_url :: string where
  "txt_no_forecast_url =
     [CHR 0xE6, CHR 0x97, CHR 0xA0, CHR 0xE6, CHR 0xB3, CHR 0x95, CHR 0xE4, CHR 0xBB, CHR 0x8E]
     @ [CHR 0xE7, CHR 0xBD, CHR 0x91, CHR 0xE6, CHR 0xA0, CHR 0xBC, CHR 0xE7, CHR 0x82, CHR 0xB9]
     @ [CHR 0xE6, CHR 0x95, CHR 0xB0, CHR 0xE6, CHR 0x8D, CHR 0xAE, CHR 0xE4, CHR 0xB8, CHR 0xAD]
     @ [CHR 0xE8, CHR 0x8E, CHR 0xB7, CHR 0xE5, CHR 0x8F, CHR 0x96, CHR 0xE5, CHR 0xA4, CHR 0xA9]
     @ [CHR 0xE6, CHR 0xB0, CHR 0x94, CHR 0xE9, CHR 0xA2, CHR 0x84, CHR 0xE6, CHR 0x8A, CHR 0xA5]
     @ ''URL''"

definition txt_no_forecast_data :: string where
  "txt_no_forecast_data =
     [CHR 0xE6, CHR 0x97, CHR 0xA0, CHR 0xE6, CHR 0xB3, CHR 0x95, CHR 0xE8, CHR 0x8E, CHR 0xB7]
     @ [CHR 0xE5, CHR 0x8F, CHR 0x96, CHR 0xE5, CHR 0xA4, CHR 0xA9, CHR 0xE6, CHR 0xB0, CHR 0x94]
     @ [CHR 0xE9, CHR 0xA2, CHR 0x84, CHR 0xE6, CHR 0x8A, CHR 0xA5, CHR 0xE6, CHR 0x95, CHR 0xB0]
     @ [CHR 0xE6, CHR 0x8D, CHR 0xAE]"

definition txt_no_periods :: string where
  "txt_no_periods =
     [CHR 0xE6, CHR 0xB2, CHR 0xA1, CHR 0xE6, CHR 0x9C, CHR 0x89, CHR 0xE5, CHR 0x8F, CHR 0xAF]
     @ [CHR 0xE7, CHR 0x94, CHR 0xA8, CHR 0xE7, CHR 0x9A, CHR 0x84, CHR 0xE5, CHR 0xA4, CHR 0xA9]
     @ [CHR 0xE6, CHR 0xB0, CHR 0x94, CHR 0xE9, CHR 0xA2, CHR 0x84, CHR 0xE6, CHR 0x8A, CHR 0xA5]
     @ [CHR 0xE5, CHR 0x91, CHR 0xA8, CHR 0xE6, CHR 0x9C, CHR 0x9F, CHR 0xE6, CHR 0x95, CHR 0xB0]
     @ [CHR 0xE6, CHR 0x8D, CHR 0xAE]"

definition txt_unknown :: string where
  "txt_unknown = [CHR 0xE6, CHR 0x9C, CHR 0xAA, CHR 0xE7, CHR 0x9F, CHR 0xA5]"

definition txt_temperature :: string where
  "txt_temperature =
     [CHR 0xE6, CHR 0xB8, CHR 0xA9, CHR 0xE5, CHR 0xBA, CHR 0xA6] @ '': ''"

definition txt_wind :: string where
  "txt_wind = [CHR 0xE9, CHR 0xA3, CHR 0x8E, CHR 0xE9, CHR 0x80, CHR 0x9F] @ '': ''"

definition txt_no_forecast :: string where
  "txt_no_forecast =
     [CHR 0xE6, CHR 0x97, CHR 0xA0, CHR 0xE5, CHR 0x8F, CHR 0xAF, CHR 0xE7, CHR 0x94, CHR 0xA8]
     @ [CHR 0xE9, CHR 0xA2, CHR 0x84, CHR 0xE6, CHR 0x8A, CHR 0xA5]"

definition txt_location :: string where
  "txt_location =
     [CHR 0xE4, CHR 0xBD, CHR 0x8D, CHR 0xE7, CHR 0xBD, CHR 0xAE] @ ''(''"

definition txt_forecast_of :: string where
  "txt_forecast_of =
     '')''
     @ [CHR 0xE7, CHR 0x9A, CHR 0x84, CHR 0xE5, CHR 0xA4, CHR 0xA9, CHR 0xE6, CHR 0xB0, CHR 0x94]
     @ [CHR 0xE9, CHR 0xA2, CHR 0x84, CHR 0xE6, CHR 0x8A, CHR 0xA5] @ '':''
     @ [CHR 0x0A, CHR 0x0A]"


definition txt_degree :: string where
  "txt_degree = [CHR 0xC2, CHR 0xB0]"

text \<open>\<open>{ content: [{ type: "text", text: t }] }\<close>\<close>

definition text_result :: "string \<Rightarrow> call_tool_result" where
  "text_result t = \<lparr>result_content = Segments [\<lparr>item_type = ''text'', item_text = Some t\<rparr>]\<rparr>"

text \<open>\<open>v || d\<close> on an optional text.\<close>

definition opt_or :: "string option \<Rightarrow> string \<Rightarrow> string" where
  "opt_or v d = (case v of Some t \<Rightarrow> or_else t d | None \<Rightarrow> d)"

text \<open>
  \<open>withErrorHandling\<close>: a value thrown by the handler becomes a text result. A handler
  gives its result or the thrown value, the world and the events; \<open>None\<close> is a handler
  that never returns.
\<close>

definition withErrorHandling ::
  "string \<Rightarrow> ((string + call_tool_result) \<times> 'w \<times> server_event list) option \<Rightarrow>
   (call_tool_result \<times> 'w \<times> server_event list) option" where
  "withErrorHandling toolName run =
     (case run of
        None \<Rightarrow> None
      | Some (Inl err, w, tr) \<Rightarrow>
          Some (text_result (txt_tool_exec_error @ err), w,
                tr @ [LogError (log_tool_exec_failed @ toolName) err])
      | Some (Inr result, w, tr) \<Rightarrow> Some (result, w, tr))"




text \<open>One forecast period, as the handler of \<open>get-forecast\<close> prints it.\<close>

definition format_period :: "'w server_env \<Rightarrow> ForecastPeriod \<Rightarrow> string" where
  "format_period env period =
     join
       [opt_or (period_name period) txt_unknown @ '':'',
        txt_temperature @
          (case temperature period of
             Some t \<Rightarrow> if t = 0 then txt_unknown else Number_toString env t
           | None \<Rightarrow> txt_unknown) @
          txt_degree @ opt_or (temperatureUnit period) ''F'',
        txt_wind @ opt_or (windSpeed period) txt_unknown @ '' '' @
          opt_or (windDirection period) [],
        opt_or (shortForecast period) txt_no_forecast,
        ''---'']
       nl"

text \<open>The handler of \<open>get-forecast\<close>, before \<open>withErrorHandling\<close>.\<close>

definition get_forecast_handler ::
  "'w server_env \<Rightarrow> rat \<Rightarrow> rat \<Rightarrow> 'w \<Rightarrow>
   ((string + call_tool_result) \<times> 'w \<times> server_event list) option" where
  "get_forecast_handler env latitude longitude w =
     (let coords = Number_toString env latitude @ '', '' @ Number_toString env longitude;
          pointsUrl = NWS_API_BASE @ ''/points/'' @ toFixed env latitude 4 @ '','' @
                      toFixed env longitude 4
      in (case makeNWSRequest (fetch_points env) pointsUrl w [] of
            None \<Rightarrow> None
          | Some (None, w1, tr) \<Rightarrow>
              Some (Inr (text_result (txt_points_failed1 @ coords @ txt_points_failed2)), w1,
                    tr @ [LogWarn (txt_points_failed1 @ coords @ log_points_failed2)])
          | Some (Some pointsData, w1, tr) \<Rightarrow>
              (case opt_or (case points pointsData of Some p \<Rightarrow> forecast p | None \<Rightarrow> None) [] of
                 [] \<Rightarrow>
                   Some (Inr (text_result txt_no_forecast_url), w1,
                         tr @ [LogWarn (txt_no_forecast_url @ '': ('' @ coords @ '')'')])
               | c # cs \<Rightarrow>
                   (case makeNWSRequest (fetch_forecast env) (c # cs) w1 tr of
                      None \<Rightarrow> None
                    | Some (None, w2, tr2) \<Rightarrow>
                        Some (Inr (text_result txt_no_forecast_data), w2,
                              tr2 @ [LogWarn (txt_no_forecast_data @ '': '' @ c # cs)])
                    | Some (Some forecastData, w2, tr2) \<Rightarrow>
                        (case (case forecast_props forecastData of
                                 Some p \<Rightarrow> periods p | None \<Rightarrow> None) of
                           Some (p # ps) \<Rightarrow>
                             Some (Inr (text_result
                                     (txt_location @ coords @ txt_forecast_of @
                                      join (map (format_period env) (p # ps)) nl)),
                                   w2, tr2)
                         | _ \<Rightarrow>
                             Some (Inr (text_result txt_no_periods), w2,
                                   tr2 @ [LogWarn (txt_no_periods @ '': ('' @ coords @ '')'')]))))))"

section \<open>The weather server: the input schema of get-forecast\<close>

text \<open>
  The schema the source registers with \<open>get-forecast\<close>:
  \<open>z.number().min(24.396308).max(49.384358)\<close> for the latitude and
  \<open>z.number().min(-124.848974).max(-66.885444)\<close> for the longitude. Both bounds are
  inclusive.
\<close>

record number_schema =
  minimum :: rat
  maximum :: rat

definition latitude_schema :: number_schema where
  "latitude_schema = \<lparr>minimum = 24396308 / 1000000, maximum = 49384358 / 1000000\<rparr>"

definition longitude_schema :: number_schema where
  "longitude_schema = \<lparr>minimum = - (124848974 / 1000000), maximum = - (66885444 / 1000000)\<rparr>"

definition in_schema :: "number_schema \<Rightarrow> rat \<Rightarrow> bool" where
  "in_schema sch x = (minimum sch \<le> x \<and> x \<le> maximum sch)"

text \<open>
  Modelled from the spec: the step between a tool request and the handler, which is the
  MCP server SDK's (\<open>server.tool\<close>) and not in the source. The spec has the latitude
  and longitude "range-checked against the continental-US bounding box by the input schema
  before the handler runs": an argument object whose \<open>latitude\<close> or \<open>longitude\<close> is
  not a number inside its schema is rejected (\<open>Inl\<close>) with no event and no change of
  the world; otherwise the wrapped handler runs.
\<close>

definition schema_number :: "number_schema \<Rightarrow> json option \<Rightarrow> rat option" where
  "schema_number sch v =
     (case v of
        Some (JNum x) \<Rightarrow> if in_schema sch x then Some x else None
      | _ \<Rightarrow> None)"

definition get_forecast ::
  "'w server_env \<Rightarrow> (string \<times> json) list \<Rightarrow> 'w \<Rightarrow>
   ((string + call_tool_result) \<times> 'w \<times> server_event list) option" where
  "get_forecast env args w =
     (case schema_number latitude_schema (map_of args ''latitude'') of
        None \<Rightarrow> Some (Inl ''Invalid arguments for tool get-forecast'', w, [])
      | Some latitude \<Rightarrow>
          (case schema_number longitude_schema (map_of args ''longitude'') of
             None \<Rightarrow> Some (Inl ''Invalid arguments for tool get-forecast'', w, [])
           | Some longitude \<Rightarrow>
               (case withErrorHandling ''get-forecast''
                       (get_forecast_handler env latitude longitude w) of
                  None \<Rightarrow> None
                | Some (result, w1, tr) \<Rightarrow> Some (Inr result, w1, tr))))"

section \<open>Notions used in the statements\<close>

text \<open>
  For the orchestrator: the names of the tools the client has called, in order; whether
  the arguments of a tool call parse; the variables of \<open>processQuery\<close> when the loop over
  the tool calls starts; and a tool call that fails with \<open>err\<close>, in \<open>callTool\<close> or in
  the follow-up call of the model.
\<close>

definition called_tools :: "'m event list \<Rightarrow> string list" where
  "called_tools tr = concat (map (\<lambda>e. case e of CallTool n a \<Rightarrow> [n] | _ \<Rightarrow> []) tr)"

definition parses :: "('w, 'm) client_env \<Rightarrow> tool_call \<Rightarrow> bool" where
  "parses env tc =
     (case JSON_parse env (or_else (arguments (func tc)) ''{}'') of
        Inl e \<Rightarrow> False
      | Inr v \<Rightarrow> True)"

definition batch_start ::
  "string \<Rightarrow> ChatCompletionTool list \<Rightarrow> choice \<Rightarrow> 'w \<Rightarrow> ('w, ChatCompletionMessage) query_state" where
  "batch_start query tools choice w0 =
     \<lparr>world = w0, trace = [ModelCall (first_request [user_message query] tools)],
      messages = [user_message query], finalText = content_text (message choice),
      toolResults = []\<rparr>"

definition tool_call_fails ::
  "('w, ChatCompletionMessage) client_env \<Rightarrow> ChatCompletionMessage \<Rightarrow> tool_call \<Rightarrow> json \<Rightarrow>
   ('w, ChatCompletionMessage) query_state \<Rightarrow> string \<Rightarrow> bool" where
  "tool_call_fails env cm tc toolArgs s err =
     (case callTool env (world s) (name (func tc)) toolArgs of
        (Inl e, w1) \<Rightarrow> e = err
      | (Inr result, w1) \<Rightarrow>
          (case create env w1
                  (follow_up_request
                     (messages s @
                        [cm, tool_message (call_id tc) (name (func tc))
                               (normalize_content (JSON_stringify env) (result_content result))])) of
             (Inl e, w2) \<Rightarrow> e = err
           | (Inr r, w2) \<Rightarrow> False))"









section \<open>Sample worlds\<close>

text \<open>
  Small worlds on which the statements below are run. For the client: a parser that knows
  the argument texts \<open>{}\<close> and \<open>{"x":1}\<close>, a provider that answers the first request with
  a given message and every follow-up with \<open>done\<close>, and a server whose tool \<open>broken\<close>
  throws, whose tool \<open>lines\<close> answers with three segments and whose other tools answer
  \<open>ok\<close>. For the server: a weather service that answers 429 twice, then 200, then 503,
  one that always answers 503, and one that answers the points request and then 503.
\<close>

definition sample_parse :: "string \<Rightarrow> string + json" where
  "sample_parse s =
     (if s = ''{}'' then Inr (JObj [])
      else if s = [CHR ''{'', CHR 0x22, CHR ''x'', CHR 0x22, CHR '':'', CHR ''1'', CHR ''}'']
      then Inr (JObj [(''x'', JNum 1)])
      else Inl ''Unexpected token in JSON'')"

definition sample_call :: "string \<Rightarrow> string \<Rightarrow> string \<Rightarrow> tool_call" where
  "sample_call i n a = \<lparr>call_id = i, type = ''function'', func = \<lparr>name = n, arguments = a\<rparr>\<rparr>"

definition assistant_message ::
  "string option \<Rightarrow> tool_call list option \<Rightarrow> ChatCompletionMessage" where
  "assistant_message c tcs =
     \<lparr>role = ''assistant'', content = c, tool_call_id = None, tool_name = None,
      tool_calls = tcs\<rparr>"

definition answer :: "ChatCompletionMessage \<Rightarrow> chat_completion" where
  "answer m = \<lparr>choices = Some [\<lparr>message = m\<rparr>]\<rparr>"

definition sample_env :: "ChatCompletionMessage \<Rightarrow> (unit, 'm) client_env" where
  "sample_env m =
     \<lparr>JSON_parse = sample_parse,
      JSON_stringify = (\<lambda>v. ''{}''),
      JSON_stringify_indent = (\<lambda>v. ''{}''),
      create = (\<lambda>w r. case req_tools r of
                  Some ts \<Rightarrow> (Inr (answer m), w)
                | None \<Rightarrow> (Inr (answer (assistant_message (Some ''done'') None)), w)),
      callTool = (\<lambda>w n a.
                  if n = ''broken'' then (Inl ''boom'', w)
                  else if n = ''lines'' then
                    (Inr \<lparr>result_content = Segments
                            [\<lparr>item_type = ''text'', item_text = Some ''one''\<rparr>,
                             \<lparr>item_type = ''image'', item_text = None\<rparr>,
                             \<lparr>item_type = ''text'', item_text = Some ''two''\<rparr>]\<rparr>, w)
                  else (Inr \<lparr>result_content = Plain ''ok''\<rparr>, w))\<rparr>"

definition failing_then_fine :: ChatCompletionMessage where
  "failing_then_fine =
     assistant_message None
       (Some [sample_call ''a'' ''broken'' ''{}'', sample_call ''b'' ''echo'' ''{}''])"

definition bad_arguments_first :: ChatCompletionMessage where
  "bad_arguments_first =
     assistant_message None
       (Some [sample_call ''a'' ''echo'' ''{bad'', sample_call ''b'' ''echo'' ''{}''])"


definition one_fine :: ChatCompletionMessage where
  "one_fine = assistant_message None (Some [sample_call ''a'' ''echo'' ''{}''])"

definition one_lines :: ChatCompletionMessage where
  "one_lines = assistant_message None (Some [sample_call ''a'' ''lines'' ''{}''])"

definition echo_line :: string where
  "echo_line =
     ''tool:echo '' @ [CHR ''{'', CHR 0x22, CHR ''x'', CHR 0x22, CHR '':'', CHR ''1'', CHR ''}'']"


definition unavailable :: "nat \<Rightarrow> string \<Rightarrow> (string + 'd http_response) \<times> nat" where
  "unavailable w url = (Inr \<lparr>status = 503, retry_after = None, body = Inl ''no body''\<rparr>, w + 1)"

definition ascii_upper :: "char \<Rightarrow> char" where
  "ascii_upper c =
     (case map_of (zip ''abcdefghijklmnopqrstuvwxyz'' ''ABCDEFGHIJKLMNOPQRSTUVWXYZ'') c of
        Some d \<Rightarrow> d
      | None \<Rightarrow> c)"

definition sample_server :: "nat server_env" where
  "sample_server =
     \<lparr>fetch_alerts = unavailable, fetch_points = unavailable, fetch_forecast = unavailable,
      Date_now = (\<lambda>w. 0), toUpperCase = map ascii_upper, toLocaleString = (\<lambda>t. ''now''),
      Number_toString = (\<lambda>x. ''n''), toFixed = (\<lambda>x d. ''n'')\<rparr>"

definition failing_bad_fine :: ChatCompletionMessage where
  "failing_bad_fine =
     assistant_message None
       (Some [sample_call ''a'' ''broken'' ''{}'', sample_call ''b'' ''echo'' ''{bad'',
              sample_call ''c'' ''echo'' ''{}''])"


lemmas sample_defs =
  sample_parse_def sample_call_def assistant_message_def answer_def sample_env_def
  failing_then_fine_def bad_arguments_first_def

declare show_nat.simps [simp del]

declare strip.simps [simp del]

section \<open>Properties of the query orchestrator\<close>

lemma called_tools_append: "called_tools (xs @ ys) = called_tools xs @ called_tools ys"
  by (simp add: called_tools_def)

lemma try_tool_call_finalText:
  "\<exists>more. finalText (try_tool_call env cm tc n a s) = finalText s @ more"
  by (auto simp: try_tool_call_def Let_def split: prod.splits sum.splits)

lemma try_tool_call_called:
  "called_tools (trace (try_tool_call env cm tc n a s)) = called_tools (trace s) @ [n]"
  by (auto simp: try_tool_call_def Let_def called_tools_def split: prod.splits sum.splits)

lemma tool_loop_finalText:
  "\<exists>more. finalText (snd (tool_loop env cm tcs s)) = finalText s @ more"
proof (induction tcs arbitrary: s)
  case Nil
  then show ?case by simp
next
  case (Cons tc tcs)
  show ?case
  proof (cases "type tc = ''function''")
    case False
    then show ?thesis using Cons.IH [of s] by simp
  next
    case True
    show ?thesis
    proof (cases "JSON_parse env (or_else (arguments (func tc)) ''{}'')")
      case (Inl e)
      then show ?thesis using True by simp
    next
      case (Inr v)
      obtain m1 where m1: "finalText (try_tool_call env cm tc (name (func tc)) v s) = finalText s @ m1"
        using try_tool_call_finalText by blast
      obtain m2 where m2: "finalText (snd (tool_loop env cm tcs (try_tool_call env cm tc (name (func tc)) v s)))
          = finalText (try_tool_call env cm tc (name (func tc)) v s) @ m2"
        using Cons.IH by blast
      show ?thesis using True Inr m1 m2 by simp
    qed
  qed
qed

lemma tool_loop_no_throw:
  "\<forall>tc \<in> set tcs. type tc = ''function'' \<longrightarrow> parses env tc \<Longrightarrow> fst (tool_loop env cm tcs s) = None"
  by (induction tcs arbitrary: s) (auto simp: parses_def split: sum.splits)

lemma tool_loop_append:
  "fst (tool_loop env cm xs s) = None \<Longrightarrow>
   tool_loop env cm (xs @ ys) s = tool_loop env cm ys (snd (tool_loop env cm xs s))"
  by (induction xs arbitrary: s) (auto split: sum.splits)


lemma join_contains: "x \<in> set xs \<Longrightarrow> \<exists>pre post. join xs sep = pre @ x @ post"
proof (induction xs sep rule: join.induct)
  case (1 sep)
  then show ?case by simp
next
  case (2 y sep)
  then have "join [y] sep = [] @ x @ []" by simp
  then show ?case by blast
next
  case (3 y z zs sep)
  show ?case
  proof (cases "x = y")
    case True
    then have "join (y # z # zs) sep = [] @ x @ (sep @ join (z # zs) sep)" by simp
    then show ?thesis by blast
  next
    case False
    then have "x \<in> set (z # zs)" using 3 by simp
    then obtain pre post where "join (z # zs) sep = pre @ x @ post" using 3 by blast
    then have "join (y # z # zs) sep = (y @ sep @ pre) @ x @ post" by simp
    then show ?thesis by blast
  qed
qed

lemma processQuery_batch:
  assumes "create env w (first_request [user_message query] tools) = (Inr response, w0)"
    and "choices response = Some (choice # others)"
    and "tool_calls (message choice) = Some (tc # tcs)"
  shows "processQuery env tools query w =
     (case tool_loop env (message choice) (tc # tcs) (batch_start query tools choice w0) of
        (Some err, s2) \<Rightarrow> query_failed err s2
      | (None, s2) \<Rightarrow> query_done s2)"
  using assms by (simp add: processQuery_def batch_start_def Let_def del: tool_loop.simps)


lemma tool_loop_reached_called:
  "tool_loop env cm tcs s = (None, s') \<Longrightarrow>
   called_tools (trace s') =
     called_tools (trace s) @ map (\<lambda>tc. name (func tc)) (filter (\<lambda>tc. type tc = ''function'') tcs)"
  by (induction tcs arbitrary: s) (auto simp: try_tool_call_called split: sum.splits if_splits)

lemma try_tool_call_fails_last:
  "tool_call_fails env cm tc toolArgs s err \<Longrightarrow>
   \<exists>earlier. finalText (try_tool_call env cm tc (name (func tc)) toolArgs s) =
      finalText s @ earlier @ [error_line (name (func tc)) err]"
  by (auto simp: tool_call_fails_def try_tool_call_def Let_def split: prod.splits sum.splits)

text \<open>
  Claim C2, amended to the client with error handling. Let the loop reach a tool call of type
  \<open>function\<close> whose arguments parse, and let this call fail with \<open>err\<close>, in
  \<open>callTool\<close> or in its follow-up call of the model. Then the error line of the source,
  with the name of the tool and the thrown message in it, is the last text of the output
  buffer after this call; the loop goes on with the rest of the batch from there; and the
  line stays in the buffer whatever the rest does. When the arguments of the rest parse,
  the query returns the joined buffer, with the line in it, and every tool call of type
  \<open>function\<close> of the batch has been invoked, in order.
\<close>

theorem tool_failure_never_aborts_batch:
  assumes first: "create env w (first_request [user_message query] tools) = (Inr response, w0)"
    and ch: "choices response = Some (choice # others)"
    and batch: "tool_calls (message choice) = Some (before @ toolCall # after)"
    and reached: "tool_loop env (message choice) before (batch_start query tools choice w0) = (None, s)"
    and fn: "type toolCall = ''function''"
    and args: "JSON_parse env (or_else (arguments (func toolCall)) ''{}'') = Inr toolArgs"
    and fails: "tool_call_fails env (message choice) toolCall toolArgs s err"
    and line: "line = ''['' @ [CHR 0xE9, CHR 0x94, CHR 0x99, CHR 0xE8, CHR 0xAF, CHR 0xAF] @ ''] ''
                 @ [CHR 0xE5, CHR 0xB7, CHR 0xA5, CHR 0xE5, CHR 0x85, CHR 0xB7] @ '' ''
                 @ name (func toolCall) @ '' ''
                 @ [CHR 0xE8, CHR 0xB0, CHR 0x83, CHR 0xE7, CHR 0x94, CHR 0xA8, CHR 0xE5, CHR 0xA4,
                    CHR 0xB1, CHR 0xE8, CHR 0xB4, CHR 0xA5] @ '': '' @ err"
    and s1: "s1 = try_tool_call env (message choice) toolCall (name (func toolCall)) toolArgs s"
  shows "(\<exists>earlier. finalText s1 = finalText s @ earlier @ [line])
       \<and> tool_loop env (message choice) (before @ toolCall # after)
             (batch_start query tools choice w0) =
           tool_loop env (message choice) after s1
       \<and> line \<in> set (finalText (snd (tool_loop env (message choice) after s1)))
       \<and> ((\<forall>tc \<in> set after. type tc = ''function'' \<longrightarrow> parses env tc) \<longrightarrow>
            (\<exists>s'. processQuery env tools query w = (join (finalText s') nl, s')
               \<and> line \<in> set (finalText s')
               \<and> (\<exists>pre post. join (finalText s') nl = pre @ line @ post)
               \<and> called_tools (trace s') =
                   map (\<lambda>tc. name (func tc))
                     (filter (\<lambda>tc. type tc = ''function'') (before @ toolCall # after))))"
proof -
  let ?cm = "message choice"
  let ?s0 = "batch_start query tools choice w0"
  let ?all = "before @ toolCall # after"
  have el: "line = error_line (name (func toolCall)) err"
    using line by (simp add: error_line_def txt_err_open_def txt_err_failed_def)
  have rec: "\<exists>earlier. finalText s1 = finalText s @ earlier @ [line]"
    using try_tool_call_fails_last [OF fails] s1 el by simp
  have "fst (tool_loop env ?cm before ?s0) = None" "snd (tool_loop env ?cm before ?s0) = s"
    using reached by simp_all
  then have "tool_loop env ?cm ?all ?s0 = tool_loop env ?cm (toolCall # after) s"
    using tool_loop_append [of env ?cm before ?s0 "toolCall # after"] by simp
  then have step: "tool_loop env ?cm ?all ?s0 = tool_loop env ?cm after s1"
    using fn args s1 by simp
  obtain more where more: "finalText (snd (tool_loop env ?cm after s1)) = finalText s1 @ more"
    using tool_loop_finalText by blast
  have mem: "line \<in> set (finalText (snd (tool_loop env ?cm after s1)))"
    using rec more by auto
  have rest: "\<exists>s'. processQuery env tools query w = (join (finalText s') nl, s')
               \<and> line \<in> set (finalText s')
               \<and> (\<exists>pre post. join (finalText s') nl = pre @ line @ post)
               \<and> called_tools (trace s') =
                   map (\<lambda>tc. name (func tc)) (filter (\<lambda>tc. type tc = ''function'') ?all)"
    if ok: "\<forall>tc \<in> set after. type tc = ''function'' \<longrightarrow> parses env tc"
  proof -
    let ?s' = "snd (tool_loop env ?cm after s1)"
    have none: "fst (tool_loop env ?cm after s1) = None"
      using ok by (rule tool_loop_no_throw)
    then have whole: "tool_loop env ?cm ?all ?s0 = (None, ?s')"
      using step by (cases "tool_loop env ?cm after s1") simp
    obtain tc tcs where ne: "?all = tc # tcs" by (cases before) auto
    have "processQuery env tools query w =
        (case tool_loop env ?cm ?all ?s0 of
           (Some err, s2) \<Rightarrow> query_failed err s2 | (None, s2) \<Rightarrow> query_done s2)"
      using processQuery_batch [OF first ch] batch ne by simp
    then have out: "processQuery env tools query w = (join (finalText ?s') nl, ?s')"
      using whole by (simp add: query_done_def)
    have calls: "called_tools (trace ?s') =
        map (\<lambda>tc. name (func tc)) (filter (\<lambda>tc. type tc = ''function'') ?all)"
      using tool_loop_reached_called [OF whole] by (simp add: batch_start_def called_tools_def)
    show ?thesis using out mem join_contains [OF mem] calls by blast
  qed
  show ?thesis using rec step mem rest by blast
qed

theorem tool_failure_never_aborts_batch_witness:
  "\<exists>s'. processQuery (sample_env failing_then_fine) [] ''hi'' () = (join (finalText s') nl, s')
      \<and> (''['' @ [CHR 0xE9, CHR 0x94, CHR 0x99, CHR 0xE8, CHR 0xAF, CHR 0xAF] @ ''] ''
           @ [CHR 0xE5, CHR 0xB7, CHR 0xA5, CHR 0xE5, CHR 0x85, CHR 0xB7] @ '' broken ''
           @ [CHR 0xE8, CHR 0xB0, CHR 0x83, CHR 0xE7, CHR 0x94, CHR 0xA8, CHR 0xE5, CHR 0xA4,
              CHR 0xB1, CHR 0xE8, CHR 0xB4, CHR 0xA5] @ '': boom'') \<in> set (finalText s')
      \<and> (\<exists>pre post. join (finalText s') nl = pre
           @ (''['' @ [CHR 0xE9, CHR 0x94, CHR 0x99, CHR 0xE8, CHR 0xAF, CHR 0xAF] @ ''] ''
           @ [CHR 0xE5, CHR 0xB7, CHR 0xA5, CHR 0xE5, CHR 0x85, CHR 0xB7] @ '' broken ''
           @ [CHR 0xE8, CHR 0xB0, CHR 0x83, CHR 0xE7, CHR 0x94, CHR 0xA8, CHR 0xE5, CHR 0xA4,
              CHR 0xB1, CHR 0xE8, CHR 0xB4, CHR 0xA5] @ '': boom'') @ post)
      \<and> called_tools (trace s') = [''broken'', ''echo'']"
  using tool_failure_never_aborts_batch
    [where env = "sample_env failing_then_fine" and w = "()" and query = "''hi''" and tools = "[]"
       and response = "answer failing_then_fine" and ?w0.0 = "()"
       and choice = "\<lparr>message = failing_then_fine\<rparr>" and others = "[]" and before = "[]"
       and toolCall = "sample_call ''a'' ''broken'' ''{}''"
       and after = "[sample_call ''b'' ''echo'' ''{}'']"
       and s = "batch_start ''hi'' [] \<lparr>message = failing_then_fine\<rparr> ()"
       and toolArgs = "JObj []" and err = "''boom''"
       and line = "''['' @ [CHR 0xE9, CHR 0x94, CHR 0x99, CHR 0xE8, CHR 0xAF, CHR 0xAF] @ ''] ''
           @ [CHR 0xE5, CHR 0xB7, CHR 0xA5, CHR 0xE5, CHR 0x85, CHR 0xB7] @ '' broken ''
           @ [CHR 0xE8, CHR 0xB0, CHR 0x83, CHR 0xE7, CHR 0x94, CHR 0xA8, CHR 0xE5, CHR 0xA4,
              CHR 0xB1, CHR 0xE8, CHR 0xB4, CHR 0xA5] @ '': boom''"
       and ?s1.0 = "try_tool_call (sample_env failing_then_fine) failing_then_fine
                     (sample_call ''a'' ''broken'' ''{}'') ''broken'' (JObj [])
                     (batch_start ''hi'' [] \<lparr>message = failing_then_fine\<rparr> ())"]
  by (simp add: sample_parse_def sample_call_def sample_env_def answer_def
        failing_then_fine_def assistant_message_def parses_def or_else_def tool_call_fails_def
        first_request_def)

text \<open>
  A later tool call whose arguments do not parse still ends the query: the error line of
  the failed call is in the buffer, but the answer is the error text of the query.
\<close>

lemma later_parse_failure_aborts:
  "fst (processQuery (sample_env failing_bad_fine) [] ''hi'' ()) =
     txt_query_error @ ''Unexpected token in JSON''
   \<and> called_tools (trace (snd (processQuery (sample_env failing_bad_fine) [] ''hi'' ()))) =
     [''broken'']
   \<and> finalText (snd (processQuery (sample_env failing_bad_fine) [] ''hi'' ())) =
     [error_line ''broken'' ''boom'']"
  by (simp add: processQuery_def sample_defs failing_bad_fine_def Let_def or_else_def
        query_failed_def first_request_def try_tool_call_def called_tools_def
        content_text_def)

text \<open>
  Claim C1 has a tool call whose arguments do not parse fail alone, the rest of the
  batch going on. In the source \<open>JSON.parse\<close> stands before the \<open>try\<close> block of the
  tool call, so the thrown value reaches the \<open>catch\<close> of \<open>processQuery\<close>: on a
  response with two tool calls, the first with arguments \<open>{bad\<close>, the answer is the
  error text of the whole query and no tool is called, the second one included.
\<close>

theorem parse_failure_aborts_query:
  "fst (processQuery (sample_env bad_arguments_first) [] ''hi'' ()) =
     txt_query_error @ ''Unexpected token in JSON''
   \<and> trace (snd (processQuery (sample_env bad_arguments_first) [] ''hi'' ())) =
     [ModelCall (first_request [user_message ''hi''] []),
      Error log_query_error (Some ''Unexpected token in JSON'')]"
  by (simp add: processQuery_def sample_defs Let_def or_else_def query_failed_def
        first_request_def)

text \<open>
  Claim C4. When the first call of the model succeeds and the message of the choice the
  orchestrator reads, \<open>choices[0]\<close>, carries text and no tool calls, the answer of
  \<open>processQuery\<close> is that text, unchanged. This holds in both clients.
\<close>

theorem text_only_answer_verbatim:
  assumes "choices response = Some (choice # others)"
    and "content (message choice) = Some t"
    and "tool_calls (message choice) = None \<or> tool_calls (message choice) = Some []"
  shows "(create env w (first_request [user_message query] tools) = (Inr response, w1)
            \<longrightarrow> fst (processQuery env tools query w) = t)
       \<and> (create env' w' (first_request [Typed (user_message query)] tools) = (Inr response, w1')
            \<longrightarrow> fst (processQuery_plain env' tools query w') = Inr t)"
  using assms
  by (auto simp: processQuery_def processQuery_plain_def Let_def content_text_def query_done_def)

theorem text_only_answer_verbatim_witness:
  "fst (processQuery (sample_env (assistant_message (Some ''hello'') None)) [] ''hi'' ()) = ''hello''
   \<and> fst (processQuery_plain (sample_env (assistant_message (Some ''hello'') None)) [] ''hi'' ())
       = Inr ''hello''"
  using text_only_answer_verbatim
    [of "answer (assistant_message (Some ''hello'') None)"
        "\<lparr>message = assistant_message (Some ''hello'') None\<rparr>" "[]" "''hello''"
        "sample_env (assistant_message (Some ''hello'') None)" "()" "''hi''" "[]" "()"
        "sample_env (assistant_message (Some ''hello'') None)" "()" "()"]
  by (simp add: sample_defs first_request_def)

text \<open>
  Claim C7, amended to the client with error handling. When a tool call of type
  \<open>function\<close> has arguments that parse and \<open>callTool\<close> returns a result, the loop
  goes on from a conversation extended by the
  assistant message and by a tool-role message that carries the id of the call, the name
  of the tool and the content of the result flattened to one text: the texts of the
  segments joined with newlines (a segment without text counts as empty), a text as it
  is, anything else through \<open>JSON.stringify\<close>.
\<close>

theorem tool_result_normalized:
  assumes "type toolCall = ''function''"
    and "JSON_parse env (or_else (arguments (func toolCall)) ''{}'') = Inr toolArgs"
    and "callTool env (world s) (name (func toolCall)) toolArgs = (Inr result, w1)"
  shows "tool_loop env cm (toolCall # rest) s =
           tool_loop env cm rest (try_tool_call env cm toolCall (name (func toolCall)) toolArgs s)
       \<and> messages (try_tool_call env cm toolCall (name (func toolCall)) toolArgs s) =
           messages s @
           [cm,
            \<lparr>role = ''tool'',
             content = Some (case result_content result of
                               Segments items \<Rightarrow>
                                 join (map (\<lambda>item. case item_text item of Some t \<Rightarrow> t | None \<Rightarrow> [])
                                         items) nl
                             | Plain t \<Rightarrow> t
                             | Other v \<Rightarrow> JSON_stringify env v),
             tool_call_id = Some (call_id toolCall),
             tool_name = Some (name (func toolCall)),
             tool_calls = None\<rparr>]"
proof -
  have "text_or_empty = (\<lambda>item. case item_text item of Some t \<Rightarrow> t | None \<Rightarrow> [])"
    by (auto simp: text_or_empty_def or_else_def fun_eq_iff split: option.splits)
  then show ?thesis
    using assms
    by (auto simp: try_tool_call_def Let_def tool_message_def normalize_content_def
          split: prod.splits sum.splits tool_content.splits)
qed

theorem tool_result_normalized_witness:
  "messages (try_tool_call (sample_env one_lines) one_lines (sample_call ''a'' ''lines'' ''{}'')
               ''lines'' (JObj []) (batch_start ''hi'' [] \<lparr>message = one_lines\<rparr> ())) =
     [user_message ''hi'', one_lines,
      \<lparr>role = ''tool'', content = Some (''one'' @ nl @ nl @ ''two''), tool_call_id = Some ''a'',
       tool_name = Some ''lines'', tool_calls = None\<rparr>]"
  using tool_result_normalized
    [of "sample_call ''a'' ''lines'' ''{}''" "sample_env one_lines" "JObj []"
        "batch_start ''hi'' [] \<lparr>message = one_lines\<rparr> ()"
        "\<lparr>result_content = Segments
            [\<lparr>item_type = ''text'', item_text = Some ''one''\<rparr>,
             \<lparr>item_type = ''image'', item_text = None\<rparr>,
             \<lparr>item_type = ''text'', item_text = Some ''two''\<rparr>]\<rparr>" "()" one_lines "[]"]
  by (simp add: sample_parse_def sample_call_def sample_env_def or_else_def batch_start_def
        del: tool_loop.simps)







section \<open>Properties of the interactive loop\<close>

lemma normalize_content_cases:
  "normalize_content stringify c =
     (case c of
        Segments items \<Rightarrow>
          join (map (\<lambda>item. case item_text item of Some t \<Rightarrow> t | None \<Rightarrow> []) items) nl
      | Plain t \<Rightarrow> t
      | Other v \<Rightarrow> stringify v)"
proof -
  have "text_or_empty = (\<lambda>item. case item_text item of Some t \<Rightarrow> t | None \<Rightarrow> [])"
    by (auto simp: text_or_empty_def or_else_def fun_eq_iff split: option.splits)
  then show ?thesis by (simp add: normalize_content_def split: tool_content.splits)
qed

lemma tool_line_not_command:
  assumes "startsWith line ''tool:''"
  shows "toLowerCase line \<noteq> ''quit'' \<and> toLowerCase line \<noteq> ''debug'' \<and> toLowerCase line \<noteq> ''info''"
proof -
  have "take (length ''tool:'') line = ''tool:''" using assms by (simp only: startsWith_def)
  then have "line = ''tool:'' @ drop (length ''tool:'') line" by (metis append_take_drop_id)
  then obtain r where "line = ''tool:'' @ r" ..
  then show ?thesis by (simp add: toLowerCase_def lower_char_def)
qed

lemma chat_lines_tool:
  assumes "startsWith line ''tool:''"
    and "toolParts = split (trim (substring line 5)) CHR '' ''"
    and "tool_line_args env toolParts = (args, warning)"
    and "directToolCall env (hd toolParts) args w = (response, w1, events)"
  shows "chat_lines env tools (line # rest) w tr =
     chat_lines env tools rest w1
       (tr @ [Question txt_prompt] @ warning @ events @ [ConsoleLog (nl @ response)])"
  using assms tool_line_not_command [OF assms(1)] by (simp add: Let_def)

text \<open>
  Claim C9, amended. A line that is \<open>quit\<close> in any letter casing ends the loop at once,
  in both clients: nothing but the prompt is added to the trace and the lines after it are
  not read. In the client with error handling, a line that starts with \<open>tool:\<close> calls
  the tool named by its first part, with
  the arguments parsed from the rest of the line (\<open>{}\<close> when there is no rest), and
  prints the flattened result, or the failure text when the call throws; the events of
  that turn are the prompt, at most the warning, the tool call and the printing, so the
  model is not called.
\<close>

theorem quit_and_direct_tool_lines:
  "(toLowerCase line = ''quit'' \<longrightarrow>
      chat_lines env tools (line # rest) w tr = (Quit, w, tr @ [Question txt_prompt])
      \<and> chat_lines_plain env' tools (line # rest) w' tr' = (Quit, w', tr' @ [Question txt_prompt]))
   \<and> (startsWith line ''tool:'' \<and> toolParts = split (trim (substring line 5)) CHR '' ''
        \<and> tool_line_args env toolParts = (args, warning) \<longrightarrow>
        (warning = [] \<or> warning = [Warn log_bad_args])
        \<and> (length toolParts \<le> 1 \<longrightarrow> args = JObj [] \<and> warning = [])
        \<and> (1 < length toolParts \<and> JSON_parse env (join (tl toolParts) '' '') = Inr v \<longrightarrow>
               args = v \<and> warning = [])
        \<and> (callTool env w (hd toolParts) args = (Inr result, w1) \<longrightarrow>
               chat_lines env tools (line # rest) w tr =
               chat_lines env tools rest w1
                 (tr @ [Question txt_prompt] @ warning @
                  [CallTool (hd toolParts) args,
                   ConsoleLog (nl @ txt_direct_open @ hd toolParts @ txt_direct_result @
                     (case result_content result of
                        Segments items \<Rightarrow>
                          join (map (\<lambda>item. case item_text item of Some t \<Rightarrow> t | None \<Rightarrow> [])
                                  items) nl
                      | Plain t \<Rightarrow> t
                      | Other v \<Rightarrow> JSON_stringify_indent env v))]))
        \<and> (callTool env w (hd toolParts) args = (Inl err, w1) \<longrightarrow>
               chat_lines env tools (line # rest) w tr =
               chat_lines env tools rest w1
                 (tr @ [Question txt_prompt] @ warning @
                  [CallTool (hd toolParts) args,
                   Error (log_direct_failed @ hd toolParts) (Some err),
                   ConsoleLog (nl @ txt_direct_fail_open @ hd toolParts @ txt_direct_fail @ err)])))"
proof (intro conjI impI)
  assume "toLowerCase line = ''quit''"
  then show "chat_lines env tools (line # rest) w tr = (Quit, w, tr @ [Question txt_prompt])"
    and "chat_lines_plain env' tools (line # rest) w' tr' = (Quit, w', tr' @ [Question txt_prompt])"
    by simp_all
next
  assume a: "startsWith line ''tool:'' \<and> toolParts = split (trim (substring line 5)) CHR '' ''
        \<and> tool_line_args env toolParts = (args, warning)"
  then have st: "startsWith line ''tool:''"
    and tp: "toolParts = split (trim (substring line 5)) CHR '' ''"
    and ta: "tool_line_args env toolParts = (args, warning)"
    by blast+
  show "warning = [] \<or> warning = [Warn log_bad_args]"
    using ta by (auto simp: tool_line_args_def split: if_splits sum.splits)
  {
    assume "length toolParts \<le> 1"
    then show "args = JObj []" and "warning = []"
      using a by (auto simp: tool_line_args_def)
  }
  {
    assume "1 < length toolParts \<and> JSON_parse env (join (tl toolParts) '' '') = Inr v"
    then show "args = v" and "warning = []"
      using a by (auto simp: tool_line_args_def)
  }
  {
    assume "callTool env w (hd toolParts) args = (Inr result, w1)"
    then have dtc: "directToolCall env (hd toolParts) args w =
        (txt_direct_open @ hd toolParts @ txt_direct_result @
           normalize_content (JSON_stringify_indent env) (result_content result),
         w1, [CallTool (hd toolParts) args])"
      by (simp add: directToolCall_def)
    show "chat_lines env tools (line # rest) w tr =
               chat_lines env tools rest w1
                 (tr @ [Question txt_prompt] @ warning @
                  [CallTool (hd toolParts) args,
                   ConsoleLog (nl @ txt_direct_open @ hd toolParts @ txt_direct_result @
                     (case result_content result of
                        Segments items \<Rightarrow>
                          join (map (\<lambda>item. case item_text item of Some t \<Rightarrow> t | None \<Rightarrow> [])
                                  items) nl
                      | Plain t \<Rightarrow> t
                      | Other v \<Rightarrow> JSON_stringify_indent env v))])"
      using chat_lines_tool [OF st tp ta dtc, of tools rest tr]
      by (simp add: normalize_content_cases del: chat_lines.simps)
  }
  {
    assume "callTool env w (hd toolParts) args = (Inl err, w1)"
    then have dtc: "directToolCall env (hd toolParts) args w =
        (txt_direct_fail_open @ hd toolParts @ txt_direct_fail @ err, w1,
         [CallTool (hd toolParts) args, Error (log_direct_failed @ hd toolParts) (Some err)])"
      by (simp add: directToolCall_def)
    show "chat_lines env tools (line # rest) w tr =
               chat_lines env tools rest w1
                 (tr @ [Question txt_prompt] @ warning @
                  [CallTool (hd toolParts) args,
                   Error (log_direct_failed @ hd toolParts) (Some err),
                   ConsoleLog (nl @ txt_direct_fail_open @ hd toolParts @ txt_direct_fail @ err)])"
      using chat_lines_tool [OF st tp ta dtc, of tools rest tr]
      by (simp add: normalize_content_cases del: chat_lines.simps)
  }
qed

lemma quit_line:
  "chat_lines env tools (''quit'' # rest) w tr = (Quit, w, tr @ [Question txt_prompt])"
  by (simp add: toLowerCase_def lower_char_def)

theorem quit_and_direct_tool_lines_witness:
  "chat_lines (sample_env one_fine) [] [''QuIt'', ''never read''] () [] =
     (Quit, (), [Question txt_prompt])
   \<and> chat_lines_plain (sample_env one_fine) [] [''QuIt'', ''never read''] () [] =
     (Quit, (), [Question txt_prompt])
   \<and> chat_lines (sample_env one_fine) [] [echo_line, ''quit''] () [] =
     (Quit, (),
      [Question txt_prompt, CallTool ''echo'' (JObj [(''x'', JNum 1)]),
       ConsoleLog (nl @ txt_direct_open @ ''echo'' @ txt_direct_result @ ''ok''),
       Question txt_prompt])"
  using quit_and_direct_tool_lines
    [where line = "''QuIt''" and env = "sample_env one_fine" and tools = "[]"
       and rest = "[''never read'']" and w = "()" and tr = "[]"
       and env' = "sample_env one_fine" and w' = "()" and tr' = "[]"]
    quit_and_direct_tool_lines
    [where line = echo_line and env = "sample_env one_fine" and tools = "[]"
       and rest = "[''quit'']" and w = "()" and tr = "[]"
       and toolParts = "[''echo'', [CHR ''{'', CHR 0x22, CHR ''x'', CHR 0x22, CHR '':'', CHR ''1'', CHR ''}'']]"
       and args = "JObj [(''x'', JNum 1)]" and warning = "[]"
       and result = "\<lparr>result_content = Plain ''ok''\<rparr>" and ?w1.0 = "()"]
  by (simp add: toLowerCase_def lower_char_def echo_line_def startsWith_def substring_def
        trim_def trimStart_def trimEnd_def strip.simps white_space_def tool_line_args_def sample_env_def sample_parse_def
        normalize_content_def quit_line
        del: chat_lines.simps(2) chat_lines_plain.simps(2))



text \<open>
  White space outside ASCII around the parts of a \<open>tool:\<close> line is trimmed as the
  source trims it: a no-break space before the name does not enter the name, and an
  ideographic space after the name is no second part.
\<close>

lemma trim_unicode_space:
  "trim ([CHR 0x09, CHR 0xC2, CHR 0xA0] @ ''echo {bad'' @ [CHR 0xE3, CHR 0x80, CHR 0x80, CHR 0x20])
     = ''echo {bad''"
  by (simp add: trim_def trimStart_def trimEnd_def strip.simps white_space_def startsWith_def)

lemma no_break_space_before_name:
  "chat_lines (sample_env one_fine) [] [''tool:'' @ [CHR 0xC2, CHR 0xA0] @ ''echo {bad'', ''quit'']
     () [] =
     (Quit, (),
      [Question txt_prompt, Warn log_bad_args, CallTool ''echo'' (JObj []),
       ConsoleLog (nl @ txt_direct_open @ ''echo'' @ txt_direct_result @ ''ok''),
       Question txt_prompt])"
  by (simp add: toLowerCase_def lower_char_def startsWith_def substring_def
        trim_def trimStart_def trimEnd_def strip.simps white_space_def sample_env_def
        sample_parse_def directToolCall_def normalize_content_def tool_line_args_def Let_def)

lemma ideographic_space_after_name:
  "chat_lines (sample_env one_fine) [] [''tool:echo '' @ [CHR 0xE3, CHR 0x80, CHR 0x80], ''quit'']
     () [] =
     (Quit, (),
      [Question txt_prompt, CallTool ''echo'' (JObj []),
       ConsoleLog (nl @ txt_direct_open @ ''echo'' @ txt_direct_result @ ''ok''),
       Question txt_prompt])"
  by (simp add: toLowerCase_def lower_char_def startsWith_def substring_def
        trim_def trimStart_def trimEnd_def strip.simps white_space_def sample_env_def
        sample_parse_def directToolCall_def normalize_content_def tool_line_args_def Let_def)

section \<open>The client without error handling, on the sample worlds\<close>


text \<open>
  Claim C2, as stated for every orchestrator, fails in the client without error handling:
  on a response with the tool calls \<open>broken\<close> and \<open>echo\<close>, the failure of
  \<open>broken\<close> rejects \<open>processQuery\<close>; no text is returned, \<open>echo\<close> is never
  called and the loop ends.
\<close>

theorem plain_tool_failure_counterexample:
  "fst (processQuery_plain (sample_env failing_then_fine) [] ''hi'' ()) = Inl ''boom''
   \<and> called_tools (trace (snd (processQuery_plain (sample_env failing_then_fine) [] ''hi'' ())))
       = [''broken'']
   \<and> fst (chat_lines_plain (sample_env failing_then_fine) [] [''hi'', ''quit''] () [])
       = Rejected ''boom''"
  by (simp add: processQuery_plain_def sample_defs Let_def or_else_def first_request_def
        follow_up_request_def called_tools_def toLowerCase_def lower_char_def)

text \<open>
  Claim C7, as stated for every orchestrator, fails in the client without error handling:
  the tool message takes the content of the result as it came, here the list of three
  segments, not the text of the segments joined with newlines.
\<close>

theorem plain_tool_message_counterexample:
  "messages (snd (processQuery_plain (sample_env one_lines) [] ''hi'' ())) =
     [Typed (user_message ''hi''), Typed one_lines,
      ToolRaw ''a'' ''lines''
        (Segments [\<lparr>item_type = ''text'', item_text = Some ''one''\<rparr>,
                   \<lparr>item_type = ''image'', item_text = None\<rparr>,
                   \<lparr>item_type = ''text'', item_text = Some ''two''\<rparr>])]"
  by (simp add: processQuery_plain_def sample_defs one_lines_def Let_def or_else_def
        first_request_def follow_up_request_def)

text \<open>
  Claim C9, as stated for every interactive loop, fails in the client without error
  handling: its loop knows no \<open>tool:\<close> line, so \<open>tool:echo\<close> is sent to the model as
  a query and no tool is called.
\<close>

theorem plain_tool_line_counterexample:
  "snd (snd (chat_lines_plain (sample_env (assistant_message (Some ''hello'') None)) []
               [''tool:echo'', ''quit''] () [])) =
     [Question txt_prompt, ModelCall (first_request [Typed (user_message ''tool:echo'')] []),
      ConsoleLog (nl @ ''hello''), Question txt_prompt]"
  by (simp add: processQuery_plain_def sample_defs Let_def first_request_def
        toLowerCase_def lower_char_def content_text_def)

section \<open>Properties of the fetch helper\<close>














lemma always_429_aux:
  assumes always: "\<And>w. \<exists>r w1. fetch w url = (Inr r, w1) \<and> status r = 429"
    and run: "makeNWSRequest fetch' url' w tr = Some y"
  shows "\<not> (fetch' = fetch \<and> url' = url)"
proof (rule makeNWSRequest.raw_induct [where P = "\<lambda>f u w tr y. \<not> (f = fetch \<and> u = url)", OF _ run])
  fix f :: "('a \<Rightarrow> string \<Rightarrow> (string + 'b http_response) \<times> 'a) \<Rightarrow> string \<Rightarrow> 'a \<Rightarrow>
        server_event list \<Rightarrow> ('b option \<times> 'a \<times> server_event list) option"
  fix ft u w tr y
  assume IH: "\<And>ft u w tr y. f ft u w tr = Some y \<Longrightarrow> \<not> (ft = fetch \<and> u = url)"
  assume body: "(case ft w u of
          (Inl err, w1) \<Rightarrow> Some (None, w1, tr @ [Delay (Some 500), Fetch u headers, LogError (log_nws_error @ u) err])
        | (Inr response, w1) \<Rightarrow>
            if status response = 429 then f ft u w1 (tr @ rate_limited_events u response)
            else if \<not> ok response then
              Some (None, w1, tr @ [Delay (Some 500), Fetch u headers,
                        LogError (log_nws_error @ u)
                          (txt_http_error @ show_nat (status response) @ '', URL: '' @ u)])
            else (case body response of
               Inl err \<Rightarrow> Some (None, w1, tr @ [Delay (Some 500), Fetch u headers, LogError (log_nws_error @ u) err])
             | Inr data \<Rightarrow> Some (Some data, w1, tr @ [Delay (Some 500), Fetch u headers]))) = Some y"
  show "\<not> (ft = fetch \<and> u = url)"
  proof
    assume eq: "ft = fetch \<and> u = url"
    obtain r w1 where "fetch w url = (Inr r, w1)" "status r = 429" using always by blast
    then have "f fetch url w1 (tr @ rate_limited_events url r) = Some y" using body eq by simp
    then show False using IH by blast
  qed
qed

text \<open>
  A weather service that answers 429 to every request of the URL keeps the helper retrying
  for ever.
\<close>

lemma always_429_never_returns:
  assumes "\<And>w. \<exists>r w1. fetch w url = (Inr r, w1) \<and> status r = 429"
  shows "makeNWSRequest fetch url w tr = None"
proof (cases "makeNWSRequest fetch url w tr")
  case None
  then show ?thesis .
next
  case (Some y)
  then show ?thesis using always_429_aux [of fetch url fetch url w tr y] assms by blast
qed

section \<open>Properties of the tool handlers\<close>





text \<open>
  Claim C8. A call of \<open>get-forecast\<close> whose latitude is outside
  \<open>[24.396308, 49.384358]\<close> or whose longitude is outside \<open>[-124.848974, -66.885444]\<close>
  is rejected before the handler: the world is unchanged and there is no event, so no
  request has been sent.
\<close>

theorem out_of_range_rejected:
  assumes "map_of args ''latitude'' = Some (JNum lat)"
    and "map_of args ''longitude'' = Some (JNum lon)"
    and "lat < 24396308 / 1000000 \<or> 49384358 / 1000000 < lat \<or>
         lon < - (124848974 / 1000000) \<or> - (66885444 / 1000000) < lon"
  shows "get_forecast env args w = Some (Inl ''Invalid arguments for tool get-forecast'', w, [])"
  using assms
  by (auto simp: get_forecast_def schema_number_def in_schema_def latitude_schema_def
        longitude_schema_def)

theorem out_of_range_rejected_witness:
  "get_forecast sample_server [(''latitude'', JNum 60), (''longitude'', JNum (- 100))] 0 =
     Some (Inl ''Invalid arguments for tool get-forecast'', 0, [])"
  using out_of_range_rejected
    [of "[(''latitude'', JNum 60), (''longitude'', JNum (- 100))]" 60 "- 100" sample_server 0]
  by simp

text \<open>
  Inside both ranges, bounds included, the wrapped handler runs.
\<close>

lemma in_range_runs_handler:
  assumes "map_of args ''latitude'' = Some (JNum lat)"
    and "map_of args ''longitude'' = Some (JNum lon)"
    and "24396308 / 1000000 \<le> lat" "lat \<le> 49384358 / 1000000"
    and "- (124848974 / 1000000) \<le> lon" "lon \<le> - (66885444 / 1000000)"
  shows "get_forecast env args w =
     (case withErrorHandling ''get-forecast'' (get_forecast_handler env lat lon w) of
        None \<Rightarrow> None
      | Some (result, w1, tr) \<Rightarrow> Some (Inr result, w1, tr))"
  using assms
  by (simp add: get_forecast_def schema_number_def in_schema_def latitude_schema_def
        longitude_schema_def)

end
